theory Spec2Isabelle
  imports Main "HOL-Library.Monad_Syntax"
begin

section \<open>RangeIE: a Range/Selection layer over the host's TextRange cursor\<close>

text \<open>
  The repository holds three revisions of the same script.  They are told apart by a
  suffix on the names of the functions in which they differ:
  \<^item> \<open>_a\<close>: \<^verbatim>\<open>src/rangeie.js\<close>;
  \<^item> \<open>_b\<close>: the first script of \<^verbatim>\<open>src/unnamed/part_001\<close> (lines 1 to 893, the one with
    \<^verbatim>\<open>_checkNode\<close>);
  \<^item> \<open>_c\<close>: the second script of \<^verbatim>\<open>src/unnamed/part_001\<close> (lines 895 to 1577).
  A function without suffix has the same text in the three revisions.
\<close>

subsection \<open>DOM nodes and JavaScript values\<close>

text \<open>
  A DOM node as the script reads it: \<^verbatim>\<open>nodeType\<close>, \<^verbatim>\<open>nodeName\<close>, the character data
  of a text node (\<^verbatim>\<open>nodeValue\<close>, whose length is the node's \<^verbatim>\<open>length\<close>), the rendered
  text and the markup of an element, and the parent link.  Object identity (\<^verbatim>\<open>===\<close>) is
  equality of \<open>nodeId\<close>.
\<close>

datatype dom_node =
  DomNode (nodeId: nat) (nodeType: int) (nodeName: "string option") (nodeValue: string)
    (innerText: string) (outerHTML: string) (parentNode: "dom_node option")

definition same_node :: "dom_node \<Rightarrow> dom_node \<Rightarrow> bool" where
  "same_node a b = (nodeId a = nodeId b)"

datatype jsval = Undefined | Null | Num int | NodeV dom_node

text \<open>\<^verbatim>\<open>_isTextNode\<close>: \<^verbatim>\<open>node.nodeType === 3\<close>.\<close>

definition isTextNode :: "dom_node \<Rightarrow> bool" where
  "isTextNode node = (nodeType node = 3)"

text \<open>
  The length every scan takes of a child: \<^verbatim>\<open>cnode.length\<close> for a text node,
  \<^verbatim>\<open>cnode.innerText.length\<close> for an element.
\<close>

definition txtLenOf :: "dom_node \<Rightarrow> int" where
  "txtLenOf cnode =
     (if isTextNode cnode then int (length (nodeValue cnode))
      else int (length (innerText cnode)))"

subsection \<open>The prefix-sum scans (revisions a and c)\<close>

text \<open>
  The loop of \<^verbatim>\<open>_getTextContainer\<close>: \<open>totLen\<close> and \<open>txtLen\<close> are the loop's variables;
  the result is \<open>node\<close> (\<open>None\<close> for \<^verbatim>\<open>null\<close>) with the values of \<open>txtLen\<close> and
  \<open>totLen\<close> at the end of the loop.
\<close>

fun getTextContainer_scan ::
  "dom_node list \<Rightarrow> int \<Rightarrow> int \<Rightarrow> int \<Rightarrow> dom_node option \<times> int \<times> int" where
  "getTextContainer_scan [] absOffset txtLen totLen = (None, txtLen, totLen)"
| "getTextContainer_scan (cnode # childs) absOffset txtLen totLen =
     (let txtLen' = txtLenOf cnode;
          totLen' = totLen + txtLen'
      in if totLen' \<ge> absOffset then (Some cnode, txtLen', totLen')
         else getTextContainer_scan childs absOffset txtLen' totLen')"

text \<open>
  \<^verbatim>\<open>_getTextContainer\<close> after \<open>absOffset\<close> has been read from the host: the owning child
  and the offset in it, or \<open>None\<close> for \<^verbatim>\<open>null\<close>.
\<close>

definition getTextContainer_at :: "dom_node list \<Rightarrow> int \<Rightarrow> (dom_node \<times> int) option" where
  "getTextContainer_at childs absOffset =
     (case getTextContainer_scan childs absOffset 0 0 of
        (Some node, txtLen, totLen) \<Rightarrow> Some (node, txtLen - (totLen - absOffset))
      | (None, txtLen, totLen) \<Rightarrow> None)"

text \<open>
  The loop of \<^verbatim>\<open>_selectTextNode\<close>: the child identical to \<open>referenceNode\<close> and the sum
  of the lengths of the children before it.
\<close>

fun selectTextNode_scan :: "dom_node list \<Rightarrow> dom_node \<Rightarrow> int \<Rightarrow> dom_node option \<times> int" where
  "selectTextNode_scan [] referenceNode totLen = (None, totLen)"
| "selectTextNode_scan (cnode # childs) referenceNode totLen =
     (if same_node cnode referenceNode then (Some cnode, totLen)
      else selectTextNode_scan childs referenceNode (totLen + txtLenOf cnode))"

text \<open>
  The two offsets \<^verbatim>\<open>_selectTextNode\<close> computes for a child it has found: \<open>totLen\<close> and
  \<open>endVal = totLen + length\<close>.
\<close>

definition selectTextNode_span :: "dom_node list \<Rightarrow> dom_node \<Rightarrow> (int \<times> int) option" where
  "selectTextNode_span childs referenceNode =
     (case selectTextNode_scan childs referenceNode 0 of
        (Some node, totLen) \<Rightarrow> Some (totLen, totLen + txtLenOf node)
      | (None, totLen) \<Rightarrow> None)"

subsection \<open>The host: the TextRange cursor, the active selection, the document\<close>

text \<open>
  The host is not part of the repository; the script only calls it.  It is taken as a
  parameter: a cursor (a TextRange object) is a value of type \<open>'c\<close>, the document
  together with the active selection (\<^verbatim>\<open>document.selection\<close>) is a value of type \<open>'h\<close>,
  and every primitive the script calls is a field of the record below.  Primitives that
  move a cursor return the new cursor (\<^verbatim>\<open>moveStart\<close> and \<^verbatim>\<open>moveEnd\<close> with the number of
  characters really moved); primitives that change the document or the active selection
  return the new \<open>'h\<close>.  \<^verbatim>\<open>duplicate()\<close> is a copy of the value.
\<close>

record ('c, 'h) host =
  h_createRange :: "'h \<Rightarrow> 'c"
  h_moveToElementText :: "'h \<Rightarrow> dom_node \<Rightarrow> 'c \<Rightarrow> 'c"
  h_collapse :: "'h \<Rightarrow> bool \<Rightarrow> 'c \<Rightarrow> 'c"
  h_moveStart :: "'h \<Rightarrow> int \<Rightarrow> 'c \<Rightarrow> int \<times> 'c"
  h_moveEnd :: "'h \<Rightarrow> int \<Rightarrow> 'c \<Rightarrow> int \<times> 'c"
  h_parentElement :: "'h \<Rightarrow> 'c \<Rightarrow> dom_node"
  h_text :: "'h \<Rightarrow> 'c \<Rightarrow> string"
  h_htmlText :: "'h \<Rightarrow> 'c \<Rightarrow> string"
  h_select :: "'c \<Rightarrow> 'h \<Rightarrow> 'h"
  h_pasteHTML :: "string \<Rightarrow> 'c \<Rightarrow> 'h \<Rightarrow> 'c \<times> 'h"
  h_execCommand :: "string \<Rightarrow> 'h \<Rightarrow> 'h"
  h_activeElement :: "'h \<Rightarrow> dom_node"
  h_childNodes :: "'h \<Rightarrow> dom_node \<Rightarrow> dom_node list"
  h_innerText :: "'h \<Rightarrow> dom_node \<Rightarrow> string"
  h_contains :: "'h \<Rightarrow> dom_node \<Rightarrow> dom_node \<Rightarrow> bool"
  h_body :: "'h \<Rightarrow> dom_node"
  h_document :: "'h \<Rightarrow> dom_node"

subsection \<open>The Range object\<close>

text \<open>
  The five public fields hold JavaScript values; \<open>r_range\<close> is \<^verbatim>\<open>this._range\<close>
  (\<open>None\<close> once \<^verbatim>\<open>detach\<close> has deleted the property) and \<open>r_bounder\<close> is
  \<^verbatim>\<open>this._bounder\<close>.
\<close>

record 'c rangeie =
  commonAncestorContainer :: jsval
  startContainer :: jsval
  startOffset :: jsval
  endContainer :: jsval
  endOffset :: jsval
  r_range :: "'c option"
  r_bounder :: dom_node

text \<open>
  What the script can raise by itself: the error of \<^verbatim>\<open>_checkNode\<close> with its message,
  and the TypeError of a property read on \<^verbatim>\<open>undefined\<close> or \<^verbatim>\<open>null\<close> (a deleted
  \<^verbatim>\<open>_range\<close>, a hole in \<^verbatim>\<open>_ranges\<close>, a missing caller).  An operation returns its
  value or its error together with the Range and the host as it leaves them.
\<close>

datatype error = TypeError | RangeIEError string

type_synonym ('a, 'c, 'h) outcome = "(error + 'a) \<times> 'c rangeie \<times> 'h"

text \<open>\<^verbatim>\<open>_reset\<close>, assignment by assignment (the same text in the three revisions).\<close>

definition reset :: "'c rangeie \<Rightarrow> 'c rangeie" where
  "reset r =
     (let r1 = r\<lparr>commonAncestorContainer := Null\<rparr>;
          r2 = r1\<lparr>endContainer := Null\<rparr>;
          r3 = r2\<lparr>endOffset := Num 0\<rparr>;
          r4 = r3\<lparr>startContainer := Null\<rparr>;
          r5 = r4\<lparr>endOffset := Num 0\<rparr>
      in r5)"

text \<open>
  The constructor \<^verbatim>\<open>RangeIE.Range\<close>: a new object has no field yet (every read gives
  \<^verbatim>\<open>undefined\<close>), then \<^verbatim>\<open>_range\<close> and \<^verbatim>\<open>_bounder\<close> are set and \<^verbatim>\<open>_reset\<close> runs.
\<close>

definition new_Range :: "('c, 'h) host \<Rightarrow> 'h \<Rightarrow> 'c rangeie" where
  "new_Range H h =
     reset \<lparr>commonAncestorContainer = Undefined, startContainer = Undefined,
            startOffset = Undefined, endContainer = Undefined, endOffset = Undefined,
            r_range = Some (h_createRange H h), r_bounder = h_activeElement H h\<rparr>"

text \<open>\<^verbatim>\<open>_getElmOffset\<close>: the difference of two long backward moves.\<close>

definition getElmOffset :: "('c, 'h) host \<Rightarrow> 'h \<Rightarrow> int" where
  "getElmOffset H h =
     (let r1 = h_createRange H h;
          r2 = h_createRange H h;
          r1' = h_moveToElementText H h (h_parentElement H h r1) r1;
          s1 = \<bar>fst (h_moveStart H h (- 100000000) r1')\<bar>;
          s2 = \<bar>fst (h_moveStart H h (- 100000000) r2)\<bar>
      in s2 - s1)"

text \<open>\<^verbatim>\<open>_getTextAbsOffset\<close> of revision a: the same probe from the bounder.\<close>

definition getTextAbsOffset_a :: "('c, 'h) host \<Rightarrow> 'h \<Rightarrow> dom_node \<Rightarrow> int" where
  "getTextAbsOffset_a H h bounder =
     (let r1 = h_createRange H h;
          r2 = h_createRange H h;
          r1' = h_moveToElementText H h bounder r1;
          s1 = \<bar>fst (h_moveStart H h (- 100000000) r1')\<bar>;
          s2 = \<bar>fst (h_moveStart H h (- 100000000) r2)\<bar>
      in s2 - s1)"

text \<open>\<^verbatim>\<open>_getTextContainer\<close> of revision a.\<close>

definition getTextContainer_a ::
  "('c, 'h) host \<Rightarrow> 'h \<Rightarrow> dom_node \<Rightarrow> (dom_node \<times> int) option" where
  "getTextContainer_a H h bounder =
     (let childs = h_childNodes H h bounder;
          absOffset = getTextAbsOffset_a H h bounder
      in getTextContainer_at childs absOffset)"

text \<open>\<^verbatim>\<open>_getNodeContainer\<close>.\<close>

definition getNodeContainer :: "('c, 'h) host \<Rightarrow> 'h \<Rightarrow> 'c \<Rightarrow> dom_node \<times> int" where
  "getNodeContainer H h c = (h_parentElement H h c, getElmOffset H h)"

text \<open>\<^verbatim>\<open>_getContainer\<close> of revision a, on the cursor \<open>c\<close> of the Range.\<close>

definition getContainer_a ::
  "('c, 'h) host \<Rightarrow> 'h \<Rightarrow> dom_node \<Rightarrow> 'c \<Rightarrow> (dom_node \<times> int) option" where
  "getContainer_a H h bounder c =
     (let parent = h_parentElement H h c
      in if same_node parent bounder then getTextContainer_a H h bounder
         else Some (getNodeContainer H h c))"

text \<open>
  \<^verbatim>\<open>_refresh\<close> of revision a (\<^verbatim>\<open>src/rangeie.js\<close>, lines 513 to 526), assignment by
  assignment, on a Range whose cursor is \<open>c\<close>.
\<close>

definition refresh_a :: "('c, 'h) host \<Rightarrow> 'h \<Rightarrow> 'c \<Rightarrow> 'c rangeie \<Rightarrow> 'c rangeie" where
  "refresh_a H h c r =
     (case getContainer_a H h (r_bounder r) c of
        None \<Rightarrow> reset r
      | Some (node, offset) \<Rightarrow>
          (let r1 = r\<lparr>commonAncestorContainer := NodeV node\<rparr>;
               r2 = r1\<lparr>endContainer := NodeV node\<rparr>;
               r3 = r2\<lparr>endContainer := Num offset\<rparr>;
               r4 = r3\<lparr>startContainer := NodeV node\<rparr>;
               r5 = r4\<lparr>startOffset := Num offset\<rparr>
           in r5))"

text \<open>\<^verbatim>\<open>_selectTextNode\<close> of revisions a and c, on the cursor.\<close>

definition selectTextNode_a ::
  "('c, 'h) host \<Rightarrow> 'h \<Rightarrow> dom_node \<Rightarrow> dom_node \<Rightarrow> 'c \<Rightarrow> bool \<times> 'c" where
  "selectTextNode_a H h bounder referenceNode c =
     (let childs = h_childNodes H h bounder
      in case selectTextNode_scan childs referenceNode 0 of
           (Some node, totLen) \<Rightarrow>
             (let endVal = totLen + txtLenOf node;
                  c1 = h_moveToElementText H h bounder c;
                  c2 = h_collapse H h True c1;
                  c3 = snd (h_moveStart H h totLen c2);
                  c4 = snd (h_moveEnd H h endVal c3)
              in (True, c4))
         | (None, totLen) \<Rightarrow>
             (let c1 = snd (h_moveStart H h (- 10000000) c);
                  c2 = snd (h_moveEnd H h (- 10000000) c1)
              in (False, c2)))"

text \<open>\<^verbatim>\<open>_selectElmNode\<close>.\<close>

definition selectElmNode :: "('c, 'h) host \<Rightarrow> 'h \<Rightarrow> dom_node \<Rightarrow> 'c \<Rightarrow> bool \<times> 'c" where
  "selectElmNode H h referenceNode c =
     (let c1 = h_moveToElementText H h referenceNode c;
          c2 = snd (h_moveStart H h (- 1) c1);
          c3 = snd (h_moveEnd H h 1 c2)
      in (True, c3))"

text \<open>\<^verbatim>\<open>_selectNode\<close> of revision a.\<close>

definition selectNode_priv_a ::
  "('c, 'h) host \<Rightarrow> 'h \<Rightarrow> dom_node \<Rightarrow> dom_node \<Rightarrow> 'c \<Rightarrow> bool \<times> 'c" where
  "selectNode_priv_a H h bounder referenceNode c =
     (if isTextNode referenceNode then selectTextNode_a H h bounder referenceNode c
      else selectElmNode H h referenceNode c)"

text \<open>
  The public methods of revision a.  Each one reaches \<^verbatim>\<open>this._range\<close> before it
  changes anything, so a detached Range gives the TypeError with nothing changed.
\<close>

definition selectNode_a ::
  "('c, 'h) host \<Rightarrow> dom_node \<Rightarrow> 'c rangeie \<Rightarrow> 'h \<Rightarrow> (bool, 'c, 'h) outcome" where
  "selectNode_a H referenceNode r h =
     (case r_range r of
        None \<Rightarrow> (Inl TypeError, r, h)
      | Some c \<Rightarrow>
          (let (st, c') = selectNode_priv_a H h (r_bounder r) referenceNode c;
               r' = r\<lparr>r_range := Some c'\<rparr>
           in if st then
                (let h' = h_select H c' h
                 in (Inr True, refresh_a H h' c' r', h'))
              else (Inr True, reset r', h)))"

definition setEnd_a ::
  "('c, 'h) host \<Rightarrow> dom_node \<Rightarrow> int \<Rightarrow> 'c rangeie \<Rightarrow> 'h \<Rightarrow> (bool, 'c, 'h) outcome" where
  "setEnd_a H endNode endOff r h =
     (case r_range r of
        None \<Rightarrow> (Inl TypeError, r, h)
      | Some c \<Rightarrow>
          (let (st, c') =
                 (if commonAncestorContainer r = Null
                  then selectNode_priv_a H h (r_bounder r) endNode c
                  else (True, c));
               r' = r\<lparr>r_range := Some c'\<rparr>
           in if st then
                (let txtLen = (if isTextNode endNode then int (length (nodeValue endNode))
                               else int (length (innerText endNode)));
                     offset = - (txtLen - endOff);
                     c'' = snd (h_moveEnd H h offset c');
                     h' = h_select H c'' h;
                     r'' = r'\<lparr>r_range := Some c''\<rparr>
                 in (Inr st, refresh_a H h' c'' r'', h'))
              else (Inr st, reset r', h)))"

definition collapse_a ::
  "('c, 'h) host \<Rightarrow> bool \<Rightarrow> 'c rangeie \<Rightarrow> 'h \<Rightarrow> (bool, 'c, 'h) outcome" where
  "collapse_a H toStart r h =
     (case r_range r of
        None \<Rightarrow> (Inl TypeError, r, h)
      | Some c \<Rightarrow>
          (let c' = h_collapse H h toStart c;
               r' = r\<lparr>r_range := Some c'\<rparr>
           in (Inr True, refresh_a H h c' r', h)))"

text \<open>\<^verbatim>\<open>detach\<close> and \<^verbatim>\<open>deleteContents\<close> (the same text in the three revisions).\<close>

definition detach :: "'c rangeie \<Rightarrow> 'h \<Rightarrow> (bool, 'c, 'h) outcome" where
  "detach r h = (Inr True, reset (r\<lparr>r_range := None\<rparr>), h)"

definition deleteContents ::
  "('c, 'h) host \<Rightarrow> 'c rangeie \<Rightarrow> 'h \<Rightarrow> (bool, 'c, 'h) outcome" where
  "deleteContents H r h =
     (let h' = h_execCommand H ''Delete'' h
      in (Inr True, reset r, h'))"

subsection \<open>Revision b: node validation\<close>

text \<open>\<^verbatim>\<open>toLowerCase\<close> on the letters A to Z.\<close>

definition toLowerCase :: "string \<Rightarrow> string" where
  "toLowerCase s =
     map (\<lambda>c. let n = (of_char c :: nat) in if 65 \<le> n \<and> n \<le> 90 then char_of (n + 32) else c) s"

text \<open>
  \<^verbatim>\<open>_isAncestor(parent, child)\<close>: the walk from \<open>child\<close> up the parent links; \<open>doc\<close> is
  \<^verbatim>\<open>window.document\<close>.  The walk ends at a node without parent.
\<close>

fun isAncestor :: "dom_node \<Rightarrow> dom_node \<Rightarrow> dom_node option \<Rightarrow> bool" where
  "isAncestor doc parent None = False"
| "isAncestor doc parent (Some (DomNode i ty nm v it oh par)) =
     (if same_node parent doc \<and> (case nm of None \<Rightarrow> False | Some n \<Rightarrow> toLowerCase n = ''html'')
      then True
      else if same_node (DomNode i ty nm v it oh par) parent then True
      else isAncestor doc parent par)"

text \<open>
  The JavaScript environment of a call of a public method: the source text of the function
  that called it (\<^verbatim>\<open>arguments.callee.caller.caller\<close>, \<^verbatim>\<open>null\<close> for a call from global
  code), and what \<^verbatim>\<open>new RegExp('.*?' + funcName + '.*', 'i').exec(f)\<close> matches in a text
  \<open>f\<close> (\<open>m[0]\<close>, or \<open>None\<close> for no match).  Both are taken as parameters.
\<close>

record js_env =
  env_caller :: "string option"
  env_exec :: "string \<Rightarrow> string \<Rightarrow> string option"

definition isSpace :: "char \<Rightarrow> bool" where
  "isSpace c = ((of_char c :: nat) \<in> {9, 10, 11, 12, 13, 32})"

text \<open>\<^verbatim>\<open>.replace(/(^\s+|\s+$)/, '')\<close>: the first match only.\<close>

definition trimOnce :: "string \<Rightarrow> string" where
  "trimOnce s =
     (if s \<noteq> [] \<and> isSpace (hd s) then dropWhile isSpace s
      else rev (dropWhile isSpace (rev s)))"

text \<open>\<^verbatim>\<open>_getCallerString\<close>; \<^verbatim>\<open>clr.toString()\<close> raises a TypeError on \<^verbatim>\<open>null\<close>.\<close>

definition getCallerString :: "js_env \<Rightarrow> string \<Rightarrow> error + string" where
  "getCallerString E funcName =
     (case env_caller E of
        None \<Rightarrow> Inl TypeError
      | Some f \<Rightarrow>
          (case env_exec E funcName f of
             Some m0 \<Rightarrow> Inr (trimOnce m0)
           | None \<Rightarrow> Inr (funcName @ ''(...)'')))"

definition checkNode_message :: string where
  "checkNode_message =
     ''RangeIE: When inserting or selecting nodes, the node '' @
     ''must already exist in the document. It must have been '' @
     ''previously added to the DOM using appendChild, '' @
     ''insertBefore or other such DOM methods. Error '' @
     ''occurred at: ''"

text \<open>\<^verbatim>\<open>_checkNode\<close>: \<open>Inl\<close> is the error thrown.\<close>

definition checkNode ::
  "('c, 'h) host \<Rightarrow> js_env \<Rightarrow> 'h \<Rightarrow> dom_node \<Rightarrow> string \<Rightarrow> error + bool" where
  "checkNode H E h referenceNode funcName =
     (if \<not> isAncestor (h_document H h) (h_document H h) (Some referenceNode) then
        (case getCallerString E funcName of
           Inl e \<Rightarrow> Inl e
         | Inr o' \<Rightarrow> Inl (RangeIEError (checkNode_message @ o')))
      else Inr True)"


subsection \<open>The backward probing loops (revisions b and c)\<close>

text \<open>
  \<^verbatim>\<open>_isBreakout\<close> of revision b, which is \<^verbatim>\<open>_isChild\<close> of revisions a and c; \<open>None\<close> is
  \<^verbatim>\<open>null\<close>.
\<close>

definition isBreakout ::
  "('c, 'h) host \<Rightarrow> 'h \<Rightarrow> dom_node option \<Rightarrow> dom_node option \<Rightarrow> bool" where
  "isBreakout H h parent child =
     (case (parent, child) of
        (Some p, Some c) \<Rightarrow>
          (if same_node p c then True
           else if same_node c (h_body H h) \<or> same_node c (h_document H h) then False
           else if h_contains H h c p then False
           else h_contains H h p c)
      | _ \<Rightarrow> False)"

text \<open>\<^verbatim>\<open>_isNonPrintTextRangeChar\<close>.\<close>

definition isNonPrintTextRangeChar :: "('c, 'h) host \<Rightarrow> 'h \<Rightarrow> 'c \<Rightarrow> bool" where
  "isNonPrintTextRangeChar H h rng =
     (let nodeDesc = toLowerCase (h_htmlText H h rng)
      in if nodeDesc = ''<br>'' then True else False)"

text \<open>The result of \<^verbatim>\<open>_getTextAbsOffset\<close> in revision b.\<close>

record offsetFinder =
  nodeIndex :: int
  relOffset :: int
  absOffset :: int

text \<open>The variables of its loop that live from one iteration to the next.\<close>

record 'c probe =
  p_r1 :: 'c
  p_i :: int
  p_rt :: string
  p_j :: int
  p_prevPar :: "dom_node option"
  p_elmCount :: int
  p_relOffset :: int

text \<open>
  One iteration of the loop of \<^verbatim>\<open>_getTextAbsOffset\<close> in revision b (lines 694 to 726 of
  \<^verbatim>\<open>part_001\<close>): \<open>Inl\<close> is a \<^verbatim>\<open>break\<close> with the object the function then returns, \<open>Inr\<close>
  the variables for the next iteration.
\<close>

definition getTextAbsOffset_step_b ::
  "('c, 'h) host \<Rightarrow> 'h \<Rightarrow> dom_node \<Rightarrow> 'c probe \<Rightarrow> offsetFinder + 'c probe" where
  "getTextAbsOffset_step_b H h bounder s =
     (let mv = h_moveStart H h (- 1) (p_r1 s);
          m = \<bar>fst mv\<bar>;
          r1 = snd mv;
          r3 = snd (h_moveEnd H h 1 (h_collapse H h True r1));
          r2 = h_collapse H h True r1;
          p = h_parentElement H h r2
      in if \<not> isBreakout H h (Some bounder) (Some p) then
           Inl \<lparr>nodeIndex = p_elmCount s, relOffset = p_relOffset s, absOffset = p_i s\<rparr>
         else
           (let i = (if h_text H h r1 \<noteq> [] \<and> p_rt s \<noteq> h_text H h r1 then p_i s + 1
                     else p_i s);
                rt = h_text H h r1
            in if m = 0 then
                 Inl \<lparr>nodeIndex = p_elmCount s, relOffset = p_relOffset s, absOffset = 0\<rparr>
               else
                 (let hitNew = (isNonPrintTextRangeChar H h r3 \<or>
                                (case p_prevPar s of None \<Rightarrow> True
                                 | Some q \<Rightarrow> \<not> same_node q p));
                      elmCount = (if hitNew then p_elmCount s + 1 else p_elmCount s);
                      relOff = (if \<not> hitNew \<and> p_elmCount s \<le> 0 then p_relOffset s + 1
                                else p_relOffset s)
                  in Inr \<lparr>p_r1 = r1, p_i = i, p_rt = rt, p_j = p_j s + 1,
                          p_prevPar = Some p, p_elmCount = elmCount,
                          p_relOffset = relOff\<rparr>)))"

text \<open>The loop: \<open>None\<close> when it runs forever.\<close>

partial_function (option) getTextAbsOffset_loop_b ::
  "('c, 'h) host \<Rightarrow> 'h \<Rightarrow> dom_node \<Rightarrow> 'c probe \<Rightarrow> offsetFinder option" where
  "getTextAbsOffset_loop_b H h bounder s =
     (case getTextAbsOffset_step_b H h bounder s of
        Inl out \<Rightarrow> Some out
      | Inr s' \<Rightarrow> getTextAbsOffset_loop_b H h bounder s')"

definition getTextAbsOffset_init_b :: "('c, 'h) host \<Rightarrow> 'h \<Rightarrow> 'c probe" where
  "getTextAbsOffset_init_b H h =
     \<lparr>p_r1 = h_createRange H h, p_i = 0, p_rt = [], p_j = 0, p_prevPar = None,
      p_elmCount = - 1, p_relOffset = 1\<rparr>"

definition getTextAbsOffset_b ::
  "('c, 'h) host \<Rightarrow> 'h \<Rightarrow> dom_node \<Rightarrow> offsetFinder option" where
  "getTextAbsOffset_b H h bounder =
     getTextAbsOffset_loop_b H h bounder (getTextAbsOffset_init_b H h)"



text \<open>
  \<^verbatim>\<open>_getTextAbsOffset\<close> of revision c (lines 1513 to 1530 of \<^verbatim>\<open>part_001\<close>): the loop
  keeps \<open>r1\<close>, \<open>i\<close> and \<open>rt\<close>.
\<close>

definition getTextAbsOffset_step_c ::
  "('c, 'h) host \<Rightarrow> 'h \<Rightarrow> dom_node \<Rightarrow> 'c \<times> int \<times> string \<Rightarrow> int + 'c \<times> int \<times> string" where
  "getTextAbsOffset_step_c H h bounder s =
     (case s of (r1, i, rt) \<Rightarrow>
        (let r1' = snd (h_moveStart H h (- 1) r1)
         in if \<not> isBreakout H h (Some bounder) (Some (h_parentElement H h r1')) then Inl i
            else
              (let i' = (if h_text H h r1' \<noteq> [] \<and> rt \<noteq> h_text H h r1' then i + 1 else i)
               in Inr (r1', i', h_text H h r1'))))"

partial_function (option) getTextAbsOffset_loop_c ::
  "('c, 'h) host \<Rightarrow> 'h \<Rightarrow> dom_node \<Rightarrow> 'c \<times> int \<times> string \<Rightarrow> int option" where
  "getTextAbsOffset_loop_c H h bounder s =
     (case getTextAbsOffset_step_c H h bounder s of
        Inl i \<Rightarrow> Some i
      | Inr s' \<Rightarrow> getTextAbsOffset_loop_c H h bounder s')"

definition getTextAbsOffset_c :: "('c, 'h) host \<Rightarrow> 'h \<Rightarrow> dom_node \<Rightarrow> int option" where
  "getTextAbsOffset_c H h bounder =
     getTextAbsOffset_loop_c H h bounder (h_createRange H h, 0, [])"

subsection \<open>Revision b: the Range methods\<close>

text \<open>
  The \<^verbatim>\<open>do ... while\<close> of \<^verbatim>\<open>_getTextContainer\<close> in revision b: \<^verbatim>\<open>childs[nodeIndex]\<close>,
  stepping down while there is no such child (a read outside the list is
  \<^verbatim>\<open>undefined\<close>).
\<close>

function getTextContainer_find_b :: "dom_node list \<Rightarrow> int \<Rightarrow> jsval" where
  "getTextContainer_find_b childs idx =
     (if 0 \<le> idx \<and> nat idx < length childs then NodeV (childs ! nat idx)
      else if 0 \<le> idx - 1 then getTextContainer_find_b childs (idx - 1)
      else Undefined)"
  by pat_completeness auto
termination
  by (relation "measure (\<lambda>(childs, idx). nat idx)") auto

text \<open>
  \<^verbatim>\<open>_getTextContainer\<close> of revision b: the outer \<open>option\<close> is \<open>None\<close> when the probing
  loop runs forever, the inner one is \<open>None\<close> for \<^verbatim>\<open>null\<close>.
\<close>

definition getTextContainer_b ::
  "('c, 'h) host \<Rightarrow> 'h \<Rightarrow> dom_node \<Rightarrow> (jsval \<times> int) option option" where
  "getTextContainer_b H h bounder =
     (let childs = h_childNodes H h bounder
      in case getTextAbsOffset_b H h bounder of
           None \<Rightarrow> None
         | Some finder \<Rightarrow>
             (if nodeIndex finder \<ge> 0 then
                Some (Some (getTextContainer_find_b childs (nodeIndex finder), relOffset finder))
              else Some None))"

definition getContainer_b ::
  "('c, 'h) host \<Rightarrow> 'h \<Rightarrow> dom_node \<Rightarrow> 'c \<Rightarrow> (jsval \<times> int) option option" where
  "getContainer_b H h bounder c =
     (let parent = h_parentElement H h c
      in if same_node parent bounder then getTextContainer_b H h bounder
         else (case getNodeContainer H h c of (node, offset) \<Rightarrow> Some (Some (NodeV node, offset))))"

text \<open>
  \<^verbatim>\<open>_refresh\<close> of revisions b and c (lines 486 to 499 and 1387 to 1400 of
  \<^verbatim>\<open>part_001\<close>), given what \<^verbatim>\<open>_getContainer\<close> returned.
\<close>

definition refresh_with :: "(jsval \<times> int) option \<Rightarrow> 'c rangeie \<Rightarrow> 'c rangeie" where
  "refresh_with container r =
     (case container of
        None \<Rightarrow> reset r
      | Some (node, offset) \<Rightarrow>
          (let r1 = r\<lparr>commonAncestorContainer := node\<rparr>;
               r2 = r1\<lparr>startContainer := node\<rparr>;
               r3 = r2\<lparr>endContainer := node\<rparr>;
               r4 = r3\<lparr>startOffset := Num offset\<rparr>;
               r5 = r4\<lparr>endOffset := Num offset\<rparr>
           in r5))"

definition refresh_b ::
  "('c, 'h) host \<Rightarrow> 'h \<Rightarrow> 'c \<Rightarrow> 'c rangeie \<Rightarrow> 'c rangeie option" where
  "refresh_b H h c r =
     (case getContainer_b H h (r_bounder r) c of
        None \<Rightarrow> None
      | Some container \<Rightarrow> Some (refresh_with container r))"

text \<open>
  The \<^verbatim>\<open>while (true)\<close> of \<^verbatim>\<open>_selectTextNode\<close> in revision b: the cursor, \<open>m\<close>
  (\<open>None\<close> while it is \<^verbatim>\<open>undefined\<close>), \<open>found\<close> and \<open>i\<close>.
\<close>

record 'c seek =
  k_range :: 'c
  k_m :: "int option"
  k_found :: bool
  k_i :: int

definition selectTextNode_step_b ::
  "('c, 'h) host \<Rightarrow> 'h \<Rightarrow> string \<Rightarrow> 'c seek \<Rightarrow> 'c + 'c seek" where
  "selectTextNode_step_b H h data s =
     (if k_m s = Some 0 then Inl (k_range s)
      else if h_text H h (k_range s) = data then
        (let mv = h_moveEnd H h 1 (k_range s)
         in if k_found s then Inr (s\<lparr>k_i := k_i s + 1, k_m := Some \<bar>fst mv\<bar>, k_range := snd mv\<rparr>)
            else Inr (s\<lparr>k_found := True, k_m := Some \<bar>fst mv\<bar>, k_range := snd mv\<rparr>))
      else if k_found s then Inl (k_range s)
      else
        (let mv = h_moveEnd H h 1 (k_range s)
         in Inr (s\<lparr>k_i := k_i s + 1, k_m := Some \<bar>fst mv\<bar>, k_range := snd mv\<rparr>)))"

partial_function (option) selectTextNode_loop_b ::
  "('c, 'h) host \<Rightarrow> 'h \<Rightarrow> string \<Rightarrow> 'c seek \<Rightarrow> 'c option" where
  "selectTextNode_loop_b H h data s =
     (case selectTextNode_step_b H h data s of
        Inl c \<Rightarrow> Some c
      | Inr s' \<Rightarrow> selectTextNode_loop_b H h data s')"

text \<open>
  \<^verbatim>\<open>_selectTextNode\<close> of revision b.  Its first loop adds up the lengths of the children
  before \<open>referenceNode\<close>, as the scan of revision a does.
\<close>

definition selectTextNode_b ::
  "('c, 'h) host \<Rightarrow> 'h \<Rightarrow> dom_node \<Rightarrow> dom_node \<Rightarrow> 'c \<Rightarrow> (bool \<times> 'c) option" where
  "selectTextNode_b H h bounder referenceNode c =
     (let childs = h_childNodes H h bounder;
          totLen = snd (selectTextNode_scan childs referenceNode 0);
          data = take (nat totLen) (h_innerText H h bounder);
          c1 = h_moveToElementText H h bounder c;
          c2 = h_collapse H h True c1
      in case selectTextNode_loop_b H h data
                \<lparr>k_range = c2, k_m = None, k_found = False, k_i = 0\<rparr> of
           None \<Rightarrow> None
         | Some c3 \<Rightarrow>
             (let c4 = snd (h_moveEnd H h (- 1) c3);
                  c5 = h_collapse H h False c4;
                  c6 = snd (h_moveEnd H h (int (length (nodeValue referenceNode))) c5)
              in Some (True, c6)))"

definition selectNode_priv_b ::
  "('c, 'h) host \<Rightarrow> 'h \<Rightarrow> dom_node \<Rightarrow> dom_node \<Rightarrow> 'c \<Rightarrow> (bool \<times> 'c) option" where
  "selectNode_priv_b H h bounder referenceNode c =
     (if isTextNode referenceNode then selectTextNode_b H h bounder referenceNode c
      else Some (selectElmNode H h referenceNode c))"




definition setEnd_b ::
  "('c, 'h) host \<Rightarrow> js_env \<Rightarrow> dom_node \<Rightarrow> int \<Rightarrow> 'c rangeie \<Rightarrow> 'h \<Rightarrow>
   (bool, 'c, 'h) outcome option" where
  "setEnd_b H E endNode endOff r h =
     (case checkNode H E h endNode ''setEnd'' of
        Inl e \<Rightarrow> Some (Inl e, r, h)
      | Inr ok \<Rightarrow>
          (case r_range r of
             None \<Rightarrow> Some (Inl TypeError, r, h)
           | Some c \<Rightarrow>
               (case (if commonAncestorContainer r = Null
                      then selectNode_priv_b H h (r_bounder r) endNode c
                      else Some (True, c)) of
                  None \<Rightarrow> None
                | Some (st, c') \<Rightarrow>
                    (let r' = r\<lparr>r_range := Some c'\<rparr>
                     in if st then
                          (let txtLen = (if isTextNode endNode
                                         then int (length (nodeValue endNode))
                                         else int (length (innerText endNode)));
                               offset = - (txtLen - endOff);
                               c'' = snd (h_moveEnd H h offset c');
                               h' = h_select H c'' h;
                               r'' = r'\<lparr>r_range := Some c''\<rparr>
                           in case refresh_b H h' c'' r'' of
                                None \<Rightarrow> None
                              | Some r3 \<Rightarrow> Some (Inr st, r3, h'))
                        else Some (Inr st, reset r', h)))))"

definition collapse_b ::
  "('c, 'h) host \<Rightarrow> bool \<Rightarrow> 'c rangeie \<Rightarrow> 'h \<Rightarrow> (bool, 'c, 'h) outcome option" where
  "collapse_b H toStart r h =
     (case r_range r of
        None \<Rightarrow> Some (Inl TypeError, r, h)
      | Some c \<Rightarrow>
          (let c' = h_collapse H h toStart c;
               r' = r\<lparr>r_range := Some c'\<rparr>
           in case refresh_b H h c' r' of
                None \<Rightarrow> None
              | Some r'' \<Rightarrow> Some (Inr True, r'', h)))"


subsection \<open>The Selection object\<close>

text \<open>
  A Range is an object that the Selection and its caller share, so Ranges live in a heap
  and \<^verbatim>\<open>this._ranges\<close> is a list of references; \<open>None\<close> in the list is a hole (what
  \<^verbatim>\<open>delete this._ranges[index]\<close> leaves).  \<open>s_host\<close> is the host.
\<close>

record ('c, 'h) selection =
  s_ranges :: "nat option list"
  s_heap :: "nat \<rightharpoonup> 'c rangeie"
  s_host :: 'h

text \<open>\<^verbatim>\<open>addRange\<close>.\<close>

definition addRange :: "nat \<Rightarrow> ('c, 'h) selection \<Rightarrow> bool \<times> ('c, 'h) selection" where
  "addRange rng S = (True, S\<lparr>s_ranges := s_ranges S @ [Some rng]\<rparr>)"

text \<open>
  \<^verbatim>\<open>this._ranges[index].detach()\<close>, the first statement of \<^verbatim>\<open>_removeRange\<close>: a TypeError
  when there is no Range at \<open>index\<close>.
\<close>

definition detachAt ::
  "nat \<Rightarrow> ('c, 'h) selection \<Rightarrow> (error + bool) \<times> ('c, 'h) selection" where
  "detachAt index S =
     (case (if index < length (s_ranges S) then s_ranges S ! index else None) of
        None \<Rightarrow> (Inl TypeError, S)
      | Some ref \<Rightarrow>
          (case s_heap S ref of
             None \<Rightarrow> (Inl TypeError, S)
           | Some r \<Rightarrow>
               (case detach r (s_host S) of
                  (res, r', h') \<Rightarrow> (res, S\<lparr>s_heap := (s_heap S)(ref \<mapsto> r'), s_host := h'\<rparr>))))"

text \<open>\<^verbatim>\<open>_removeRange\<close> of revision a (\<^verbatim>\<open>src/rangeie.js\<close>, lines 229 to 233).\<close>

definition removeRange_priv_a ::
  "nat \<Rightarrow> ('c, 'h) selection \<Rightarrow> (error + bool) \<times> ('c, 'h) selection" where
  "removeRange_priv_a index S =
     (case detachAt index S of
        (Inl e, S1) \<Rightarrow> (Inl e, S1)
      | (Inr ok, S1) \<Rightarrow> (Inr True, S1\<lparr>s_ranges := (s_ranges S1)[index := None]\<rparr>))"

text \<open>
  \<^verbatim>\<open>_removeRange\<close> of revisions b and c (lines 174 to 179 and 1067 to 1072 of
  \<^verbatim>\<open>part_001\<close>): the same, then \<^verbatim>\<open>this._ranges.splice(index, 1)\<close>.
\<close>

definition removeRange_priv_b ::
  "nat \<Rightarrow> ('c, 'h) selection \<Rightarrow> (error + bool) \<times> ('c, 'h) selection" where
  "removeRange_priv_b index S =
     (case detachAt index S of
        (Inl e, S1) \<Rightarrow> (Inl e, S1)
      | (Inr ok, S1) \<Rightarrow>
          (let S2 = S1\<lparr>s_ranges := (s_ranges S1)[index := None]\<rparr>;
               S3 = S2\<lparr>s_ranges := take index (s_ranges S2) @ drop (Suc index) (s_ranges S2)\<rparr>
           in (Inr True, S3)))"

text \<open>
  The loop of \<^verbatim>\<open>removeRange\<close>, from the last index down; the first argument is \<open>i + 1\<close>.
  The loop is the same in the three revisions and calls the \<^verbatim>\<open>_removeRange\<close> of its
  revision, here the parameter \<open>rm\<close>.
\<close>

fun removeRange_loop ::
  "(nat \<Rightarrow> ('c, 'h) selection \<Rightarrow> (error + bool) \<times> ('c, 'h) selection) \<Rightarrow>
   nat \<Rightarrow> nat \<Rightarrow> ('c, 'h) selection \<Rightarrow> (error + bool) \<times> ('c, 'h) selection" where
  "removeRange_loop rm 0 rng S = (Inr False, S)"
| "removeRange_loop rm (Suc i) rng S =
     (if s_ranges S ! i = Some rng then
        (case rm i S of
           (Inl e, S') \<Rightarrow> (Inl e, S')
         | (Inr ok, S') \<Rightarrow> (Inr True, S'))
      else removeRange_loop rm i rng S)"

definition removeRange_a ::
  "nat \<Rightarrow> ('c, 'h) selection \<Rightarrow> (error + bool) \<times> ('c, 'h) selection" where
  "removeRange_a rng S = removeRange_loop removeRange_priv_a (length (s_ranges S)) rng S"

definition removeRange_b ::
  "nat \<Rightarrow> ('c, 'h) selection \<Rightarrow> (error + bool) \<times> ('c, 'h) selection" where
  "removeRange_b rng S = removeRange_loop removeRange_priv_b (length (s_ranges S)) rng S"

text \<open>
  \<^verbatim>\<open>range.collapse(toStart)\<close> on the Range at \<open>index\<close> of the Selection, for the
  \<^verbatim>\<open>collapse\<close> of revision a: a TypeError when there is no Range there.
\<close>

definition collapseAt_a ::
  "('c, 'h) host \<Rightarrow> bool \<Rightarrow> nat \<Rightarrow> ('c, 'h) selection \<Rightarrow>
   (error + nat) \<times> ('c, 'h) selection" where
  "collapseAt_a H toStart index S =
     (case s_ranges S ! index of
        None \<Rightarrow> (Inl TypeError, S)
      | Some ref \<Rightarrow>
          (case s_heap S ref of
             None \<Rightarrow> (Inl TypeError, S)
           | Some r \<Rightarrow>
               (case collapse_a H toStart r (s_host S) of
                  (Inl e, r', h') \<Rightarrow> (Inl e, S\<lparr>s_heap := (s_heap S)(ref \<mapsto> r'), s_host := h'\<rparr>)
                | (Inr ok, r', h') \<Rightarrow>
                    (Inr ref, S\<lparr>s_heap := (s_heap S)(ref \<mapsto> r'), s_host := h'\<rparr>))))"

text \<open>\<^verbatim>\<open>range._range.select()\<close> on the Range \<open>ref\<close>.\<close>

definition selectOf ::
  "('c, 'h) host \<Rightarrow> nat \<Rightarrow> ('c, 'h) selection \<Rightarrow> (error + bool) \<times> ('c, 'h) selection" where
  "selectOf H ref S =
     (case s_heap S ref of
        None \<Rightarrow> (Inl TypeError, S)
      | Some r \<Rightarrow>
          (case r_range r of
             None \<Rightarrow> (Inl TypeError, S)
           | Some c \<Rightarrow> (Inr True, S\<lparr>s_host := h_select H c (s_host S)\<rparr>)))"

text \<open>
  \<^verbatim>\<open>collapseToStart\<close> (the same in the three revisions up to the \<^verbatim>\<open>collapse\<close> it
  calls) and \<^verbatim>\<open>collapseToEnd\<close> of revision a (\<^verbatim>\<open>src/rangeie.js\<close>, lines 190 to 201).
\<close>

definition collapseToStart_a ::
  "('c, 'h) host \<Rightarrow> ('c, 'h) selection \<Rightarrow> (error + bool) \<times> ('c, 'h) selection" where
  "collapseToStart_a H S =
     (if length (s_ranges S) > 0 then
        (case collapseAt_a H True 0 S of
           (Inl e, S1) \<Rightarrow> (Inl e, S1)
         | (Inr ref, S1) \<Rightarrow> selectOf H ref S1)
      else (Inr False, S))"

definition collapseToEnd_a ::
  "('c, 'h) host \<Rightarrow> ('c, 'h) selection \<Rightarrow> (error + bool) \<times> ('c, 'h) selection" where
  "collapseToEnd_a H S =
     (if length (s_ranges S) > 0 then
        (case collapseAt_a H False (length (s_ranges S) - 1) S of
           (Inl e, S1) \<Rightarrow> (Inl e, S1)
         | (Inr ref, S1) \<Rightarrow> selectOf H ref S1)
      else (Inr False, S))"

text \<open>The same for revision b, whose \<^verbatim>\<open>collapse\<close> may run forever.\<close>

definition collapseAt_b ::
  "('c, 'h) host \<Rightarrow> bool \<Rightarrow> nat \<Rightarrow> ('c, 'h) selection \<Rightarrow>
   ((error + nat) \<times> ('c, 'h) selection) option" where
  "collapseAt_b H toStart index S =
     (case s_ranges S ! index of
        None \<Rightarrow> Some (Inl TypeError, S)
      | Some ref \<Rightarrow>
          (case s_heap S ref of
             None \<Rightarrow> Some (Inl TypeError, S)
           | Some r \<Rightarrow>
               (case collapse_b H toStart r (s_host S) of
                  None \<Rightarrow> None
                | Some (Inl e, r', h') \<Rightarrow>
                    Some (Inl e, S\<lparr>s_heap := (s_heap S)(ref \<mapsto> r'), s_host := h'\<rparr>)
                | Some (Inr ok, r', h') \<Rightarrow>
                    Some (Inr ref, S\<lparr>s_heap := (s_heap S)(ref \<mapsto> r'), s_host := h'\<rparr>))))"

definition collapseToStart_b ::
  "('c, 'h) host \<Rightarrow> ('c, 'h) selection \<Rightarrow> ((error + bool) \<times> ('c, 'h) selection) option" where
  "collapseToStart_b H S =
     (if length (s_ranges S) > 0 then
        (case collapseAt_b H True 0 S of
           None \<Rightarrow> None
         | Some (Inl e, S1) \<Rightarrow> Some (Inl e, S1)
         | Some (Inr ref, S1) \<Rightarrow> Some (selectOf H ref S1))
      else Some (Inr False, S))"

text \<open>
  \<^verbatim>\<open>collapseToEnd\<close> of revisions b and c (lines 136 to 146 and 1029 to 1039 of
  \<^verbatim>\<open>part_001\<close>).
\<close>

definition collapseToEnd_b ::
  "('c, 'h) host \<Rightarrow> ('c, 'h) selection \<Rightarrow> ((error + bool) \<times> ('c, 'h) selection) option" where
  "collapseToEnd_b H S =
     (if length (s_ranges S) > 0 then
        (case collapseAt_b H False (length (s_ranges S) - 1) S of
           None \<Rightarrow> None
         | Some (Inl e, S1) \<Rightarrow> Some (Inl e, S1)
         | Some (Inr ref, S1) \<Rightarrow> Some (Inr True, S1))
      else Some (Inr False, S))"

subsection \<open>An example document\<close>

text \<open>
  The document of the README: a \<^verbatim>\<open>div\<close> with the children \<^verbatim>\<open>"Hello World "\<close>,
  \<^verbatim>\<open><span>Foo Bar</span>\<close> and \<^verbatim>\<open>" Foo Baz"\<close>, and a text node that was created but
  never added to the document.
\<close>

definition ex_document :: dom_node where
  "ex_document = DomNode 0 9 (Some ''#document'') [] [] [] None"

definition ex_html :: dom_node where
  "ex_html = DomNode 1 1 (Some ''HTML'') [] [] [] (Some ex_document)"

definition ex_body :: dom_node where
  "ex_body = DomNode 2 1 (Some ''BODY'') [] [] [] (Some ex_html)"

definition ex_div :: dom_node where
  "ex_div = DomNode 3 1 (Some ''DIV'') [] ''Hello World Foo Bar Foo Baz'' [] (Some ex_body)"

definition ex_text0 :: dom_node where
  "ex_text0 = DomNode 4 3 (Some ''#text'') ''Hello World '' [] [] (Some ex_div)"

definition ex_span :: dom_node where
  "ex_span = DomNode 5 1 (Some ''SPAN'') [] ''Foo Bar'' ''<SPAN>Foo Bar</SPAN>''
     (Some ex_div)"

definition ex_text2 :: dom_node where
  "ex_text2 = DomNode 6 3 (Some ''#text'') '' Foo Baz'' [] [] (Some ex_div)"

definition ex_childs :: "dom_node list" where
  "ex_childs = [ex_text0, ex_span, ex_text2]"

definition ex_loose :: dom_node where
  "ex_loose = DomNode 7 3 (Some ''#text'') ''new'' [] [] None"

text \<open>The text node inside the \<^verbatim>\<open>span\<close>: in the document, not a child of the \<^verbatim>\<open>div\<close>.\<close>

definition ex_inner :: dom_node where
  "ex_inner = DomNode 8 3 (Some ''#text'') ''Foo Bar'' [] [] (Some ex_span)"

text \<open>A Range positioned in the first child at offset 6, on a cursor of two positions.\<close>

definition ex_range :: "(int \<times> int) rangeie" where
  "ex_range =
     \<lparr>commonAncestorContainer = NodeV ex_text0, startContainer = NodeV ex_text0,
      startOffset = Num 6, endContainer = NodeV ex_text0, endOffset = Num 6,
      r_range = Some (6, 6), r_bounder = ex_div\<rparr>"

subsection \<open>An example host\<close>

text \<open>
  A small host for running the script on the example document.  The flat text of the
  document is the text of the \<^verbatim>\<open>div\<close> (27 characters) followed by five characters of
  the \<^verbatim>\<open>body\<close>; a cursor is a pair of positions in it, and a move stops at 0 and at 32.
  The host's state is the active selection and the list of the commands that changed the
  active selection or the document.
\<close>

record toy =
  t_sel :: "int \<times> int"
  t_log :: "string list"

definition toy_flat :: string where
  "toy_flat = ''Hello World Foo Bar Foo Baz tail''"

definition toy_clip :: "int \<Rightarrow> int" where
  "toy_clip x = max 0 (min 32 x)"

definition toy_moveStart :: "toy \<Rightarrow> int \<Rightarrow> int \<times> int \<Rightarrow> int \<times> (int \<times> int)" where
  "toy_moveStart h n c =
     (let s' = toy_clip (fst c + n)
      in if s' = fst c then (0, c) else (s' - fst c, (s', max s' (snd c))))"

definition toy_moveEnd :: "toy \<Rightarrow> int \<Rightarrow> int \<times> int \<Rightarrow> int \<times> (int \<times> int)" where
  "toy_moveEnd h n c =
     (let e' = toy_clip (snd c + n)
      in if e' = snd c then (0, c) else (e' - snd c, (min (fst c) e', e')))"

definition toy_moveToElementText :: "toy \<Rightarrow> dom_node \<Rightarrow> int \<times> int \<Rightarrow> int \<times> int" where
  "toy_moveToElementText h node c =
     (if nodeId node = 3 then (0, 27)
      else if nodeId node = 4 then (0, 12)
      else if nodeId node = 5 then (12, 19)
      else if nodeId node = 6 then (19, 27)
      else c)"

definition toy_parentElement :: "toy \<Rightarrow> int \<times> int \<Rightarrow> dom_node" where
  "toy_parentElement h c =
     (if 12 < fst c \<and> snd c < 19 then ex_span
      else if snd c \<le> 27 then ex_div
      else ex_body)"

definition toy_text :: "toy \<Rightarrow> int \<times> int \<Rightarrow> string" where
  "toy_text h c = take (nat (snd c - fst c)) (drop (nat (fst c)) toy_flat)"

definition toy_host :: "(int \<times> int, toy) host" where
  "toy_host =
     \<lparr>h_createRange = t_sel,
      h_moveToElementText = toy_moveToElementText,
      h_collapse = (\<lambda>h toStart c. if toStart then (fst c, fst c) else (snd c, snd c)),
      h_moveStart = toy_moveStart,
      h_moveEnd = toy_moveEnd,
      h_parentElement = toy_parentElement,
      h_text = toy_text,
      h_htmlText = toy_text,
      h_select = (\<lambda>c h. h\<lparr>t_sel := c, t_log := t_log h @ [''select'']\<rparr>),
      h_pasteHTML = (\<lambda>data c h. (c, h\<lparr>t_log := t_log h @ [''pasteHTML '' @ data]\<rparr>)),
      h_execCommand = (\<lambda>cmd h. h\<lparr>t_log := t_log h @ [''execCommand '' @ cmd]\<rparr>),
      h_activeElement = (\<lambda>h. ex_div),
      h_childNodes = (\<lambda>h node. if nodeId node = 3 then ex_childs else []),
      h_innerText = (\<lambda>h node. innerText node),
      h_contains = (\<lambda>h a b. nodeId a = 3 \<and> nodeId b \<in> {4, 5, 6}),
      h_body = (\<lambda>h. ex_body),
      h_document = (\<lambda>h. ex_document)\<rparr>"

definition toy_start :: toy where
  "toy_start = \<lparr>t_sel = (6, 6), t_log = []\<rparr>"

text \<open>A caller: the function of the README, and a search that finds no line in it.\<close>

definition ex_env :: js_env where
  "ex_env = \<lparr>env_caller = Some ''function deleteThirdElement() { ... }'',
             env_exec = (\<lambda>funcName f. None)\<rparr>"

text \<open>A Selection that holds two Ranges, both positioned as \<open>ex_range\<close>.\<close>

definition ex_selection :: "(int \<times> int, toy) selection" where
  "ex_selection =
     \<lparr>s_ranges = [Some 0, Some 1],
      s_heap = [0 \<mapsto> ex_range, 1 \<mapsto> ex_range],
      s_host = toy_start\<rparr>"

text \<open>
  A Selection that holds one Range whose cursor spans the flat offsets 3 to 6, with that
  span as the active selection.
\<close>

definition toy_3_6 :: toy where
  "toy_3_6 = \<lparr>t_sel = (3, 6), t_log = []\<rparr>"

definition ex_selection_3_6 :: "(int \<times> int, toy) selection" where
  "ex_selection_3_6 =
     \<lparr>s_ranges = [Some 0],
      s_heap = [0 \<mapsto> ex_range\<lparr>r_range := Some (3, 6)\<rparr>],
      s_host = toy_3_6\<rparr>"

section \<open>Properties\<close>

subsection \<open>Facts about the examples\<close>

lemmas ex_defs =
  ex_document_def ex_html_def ex_body_def ex_div_def ex_text0_def ex_span_def ex_text2_def
  ex_loose_def ex_inner_def

lemma ex_ids:
  "nodeId ex_document = 0" "nodeId ex_html = 1" "nodeId ex_body = 2" "nodeId ex_div = 3"
  "nodeId ex_text0 = 4" "nodeId ex_span = 5" "nodeId ex_text2 = 6" "nodeId ex_loose = 7"
  "nodeId ex_inner = 8"
  by (simp_all add: ex_defs)

lemma ex_lens:
  "txtLenOf ex_text0 = 12" "txtLenOf ex_span = 7" "txtLenOf ex_text2 = 8"
  "txtLenOf ex_loose = 3" "txtLenOf ex_inner = 7"
  by (simp_all add: ex_defs txtLenOf_def isTextNode_def)

lemma ex_kinds:
  "isTextNode ex_text0" "\<not> isTextNode ex_span" "isTextNode ex_text2" "isTextNode ex_loose"
  "isTextNode ex_inner" "\<not> isTextNode ex_div"
  by (simp_all add: ex_defs isTextNode_def)

lemmas toy_eval =
  toy_host_def toy_moveStart_def toy_moveEnd_def toy_moveToElementText_def
  toy_parentElement_def toy_clip_def toy_start_def same_node_def ex_ids ex_lens ex_kinds
  ex_childs_def Let_def

lemma toy_text_simps: "h_text toy_host = toy_text" "h_htmlText toy_host = toy_text"
  by (simp_all add: toy_host_def)

lemmas loop_b_eval =
  getTextAbsOffset_b_def getTextAbsOffset_init_b_def getTextAbsOffset_loop_b.simps
  getTextAbsOffset_step_b_def isBreakout_def isNonPrintTextRangeChar_def toLowerCase_def
  toy_text_def toy_flat_def

lemma ex_attached:
  "isAncestor ex_document ex_document (Some ex_text0)"
  "isAncestor ex_document ex_document (Some ex_span)"
  "isAncestor ex_document ex_document (Some ex_inner)"
  "\<not> isAncestor ex_document ex_document (Some ex_loose)"
  by (simp_all add: ex_defs same_node_def toLowerCase_def)

lemma toy_document: "h_document toy_host h = ex_document"
  by (simp add: toy_host_def)

lemma toy_collapse:
  "h_collapse toy_host h toStart c = (if toStart then (fst c, fst c) else (snd c, snd c))"
  by (simp add: toy_host_def)

lemma toy_select: "h_select toy_host c h = h\<lparr>t_sel := c, t_log := t_log h @ [''select'']\<rparr>"
  by (simp add: toy_host_def)

subsection \<open>The prefix-sum scans\<close>

lemma txtLenOf_nonneg: "0 \<le> txtLenOf n"
  by (simp add: txtLenOf_def)

lemma sum_txtLenOf_nonneg: "0 \<le> sum_list (map txtLenOf cs)"
  by (rule sum_list_nonneg) (auto simp: txtLenOf_nonneg)

lemma selectTextNode_scan_nth:
  "distinct (map nodeId childs) \<Longrightarrow> k < length childs \<Longrightarrow>
   selectTextNode_scan childs (childs ! k) t =
     (Some (childs ! k), t + sum_list (map txtLenOf (take k childs)))"
proof (induction childs arbitrary: k t)
  case Nil
  then show ?case by simp
next
  case (Cons c cs)
  show ?case
  proof (cases k)
    case 0
    then show ?thesis by (simp add: same_node_def)
  next
    case (Suc j)
    with Cons.prems have j: "j < length cs" and d: "distinct (map nodeId cs)"
      and ne: "nodeId c \<noteq> nodeId (cs ! j)"
      by auto
    from Cons.IH [OF d j] Suc ne show ?thesis
      by (simp add: same_node_def add.assoc)
  qed
qed

lemma getTextContainer_scan_nth:
  "k < length childs \<Longrightarrow>
   t + sum_list (map txtLenOf (take k childs)) < a \<Longrightarrow>
   a \<le> t + sum_list (map txtLenOf (take k childs)) + txtLenOf (childs ! k) \<Longrightarrow>
   getTextContainer_scan childs a x t =
     (Some (childs ! k), txtLenOf (childs ! k),
      t + sum_list (map txtLenOf (take k childs)) + txtLenOf (childs ! k))"
proof (induction childs arbitrary: k t x)
  case Nil
  then show ?case by simp
next
  case (Cons c cs)
  show ?case
  proof (cases k)
    case 0
    with Cons.prems show ?thesis by (simp add: Let_def)
  next
    case (Suc j)
    with Cons.prems have j: "j < length cs" by simp
    have "0 \<le> sum_list (map txtLenOf (take j cs))"
      by (rule sum_txtLenOf_nonneg)
    with Cons.prems(2) Suc have lt: "\<not> a \<le> t + txtLenOf c" by simp
    from Cons.prems Suc
    have "getTextContainer_scan cs a (txtLenOf c) (t + txtLenOf c) =
      (Some (cs ! j), txtLenOf (cs ! j),
       (t + txtLenOf c) + sum_list (map txtLenOf (take j cs)) + txtLenOf (cs ! j))"
      by (intro Cons.IH [OF j]) (simp_all add: add.assoc)
    with lt Suc show ?thesis by (simp add: Let_def add.assoc)
  qed
qed

lemma selectTextNode_span_nth:
  "distinct (map nodeId childs) \<Longrightarrow> k < length childs \<Longrightarrow>
   selectTextNode_span childs (childs ! k) =
     Some (sum_list (map txtLenOf (take k childs)),
           sum_list (map txtLenOf (take k childs)) + txtLenOf (childs ! k))"
  by (simp add: selectTextNode_span_def selectTextNode_scan_nth)

lemma getTextContainer_at_inside:
  assumes k: "k < length childs"
    and lo: "sum_list (map txtLenOf (take k childs)) < t"
    and hi: "t \<le> sum_list (map txtLenOf (take k childs)) + txtLenOf (childs ! k)"
  shows "getTextContainer_at childs t =
    Some (childs ! k, t - sum_list (map txtLenOf (take k childs)))"
proof -
  have "getTextContainer_scan childs t 0 0 =
    (Some (childs ! k), txtLenOf (childs ! k),
     0 + sum_list (map txtLenOf (take k childs)) + txtLenOf (childs ! k))"
    using k lo hi by (intro getTextContainer_scan_nth) simp_all
  then show ?thesis by (simp add: getTextContainer_at_def)
qed

lemma getTextContainer_at_zero:
  "childs \<noteq> [] \<Longrightarrow> getTextContainer_at childs 0 = Some (childs ! 0, 0)"
  by (cases childs) (simp_all add: getTextContainer_at_def Let_def txtLenOf_nonneg)

subsection \<open>C1: resolving the offsets of a child's span\<close>

text \<open>
  C1, as stated: for every child list and every index \<open>k\<close>, resolving the start of the
  span of \<open>children[k]\<close> gives \<open>(children[k], 0)\<close>.  The scan stops at the first child
  whose cumulative length reaches the offset, so the start of the span of a later child is
  resolved to the end of the child before it: in the document of the README the span of
  the second child starts at 12, and 12 resolves to the first child at offset 12.
\<close>

theorem resolve_span_start_counterexample:
  "selectTextNode_span ex_childs (ex_childs ! 1) = Some (12, 19) \<and>
   getTextContainer_at ex_childs 12 = Some (ex_childs ! 0, 12) \<and>
   getTextContainer_at ex_childs 12 \<noteq> Some (ex_childs ! 1, 0)"
  by (simp add: selectTextNode_span_def getTextContainer_at_def same_node_def ex_childs_def
      ex_ids ex_lens)

text \<open>
  C1, amended: let \<open>(s, e)\<close> be the span of \<open>children[k]\<close>, so that \<open>s\<close> is the sum of the
  lengths of the children before it and \<open>e = s + length(children[k])\<close>.  Every flat offset
  \<open>t\<close> with \<open>s < t \<le> e\<close> resolves to \<open>(children[k], t - s)\<close>; in particular \<open>e - 1\<close>
  resolves to \<open>children[k]\<close> when that child has at least two characters.  The start \<open>s\<close>
  itself resolves to \<open>(children[k], 0)\<close> for \<open>k = 0\<close>, and for a later child whose
  predecessor is not empty to the end of that predecessor.
\<close>

theorem resolve_within_span:
  assumes d: "distinct (map nodeId childs)" and k: "k < length childs"
  shows "\<exists>s e. selectTextNode_span childs (childs ! k) = Some (s, e) \<and>
    s = sum_list (map txtLenOf (take k childs)) \<and> e = s + txtLenOf (childs ! k) \<and>
    (\<forall>t. s < t \<and> t \<le> e \<longrightarrow> getTextContainer_at childs t = Some (childs ! k, t - s)) \<and>
    (2 \<le> txtLenOf (childs ! k) \<longrightarrow>
       getTextContainer_at childs (e - 1) = Some (childs ! k, txtLenOf (childs ! k) - 1)) \<and>
    (k = 0 \<longrightarrow> getTextContainer_at childs s = Some (childs ! k, 0)) \<and>
    (0 < k \<and> 0 < txtLenOf (childs ! (k - 1)) \<longrightarrow>
       getTextContainer_at childs s = Some (childs ! (k - 1), txtLenOf (childs ! (k - 1))))"
proof -
  let ?s = "sum_list (map txtLenOf (take k childs))"
  let ?e = "?s + txtLenOf (childs ! k)"
  have span: "selectTextNode_span childs (childs ! k) = Some (?s, ?e)"
    using d k by (rule selectTextNode_span_nth)
  have inside: "\<forall>t. ?s < t \<and> t \<le> ?e \<longrightarrow>
      getTextContainer_at childs t = Some (childs ! k, t - ?s)"
    using k by (auto intro: getTextContainer_at_inside)
  have last: "2 \<le> txtLenOf (childs ! k) \<longrightarrow>
      getTextContainer_at childs (?e - 1) = Some (childs ! k, txtLenOf (childs ! k) - 1)"
  proof
    assume "2 \<le> txtLenOf (childs ! k)"
    then have "getTextContainer_at childs (?e - 1) = Some (childs ! k, (?e - 1) - ?s)"
      using k by (intro getTextContainer_at_inside) simp_all
    then show "getTextContainer_at childs (?e - 1) =
        Some (childs ! k, txtLenOf (childs ! k) - 1)"
      by simp
  qed
  have first: "k = 0 \<longrightarrow> getTextContainer_at childs ?s = Some (childs ! k, 0)"
    using k by (auto simp: getTextContainer_at_zero)
  have prev: "0 < k \<and> 0 < txtLenOf (childs ! (k - 1)) \<longrightarrow>
      getTextContainer_at childs ?s = Some (childs ! (k - 1), txtLenOf (childs ! (k - 1)))"
  proof
    assume a: "0 < k \<and> 0 < txtLenOf (childs ! (k - 1))"
    then obtain j where j: "k = Suc j" by (cases k) auto
    with k have jl: "j < length childs" by simp
    have split: "?s = sum_list (map txtLenOf (take j childs)) + txtLenOf (childs ! j)"
      using j jl by (simp add: take_Suc_conv_app_nth)
    have "getTextContainer_at childs ?s =
        Some (childs ! j, ?s - sum_list (map txtLenOf (take j childs)))"
      using jl a j split by (intro getTextContainer_at_inside) simp_all
    with split j show "getTextContainer_at childs ?s =
        Some (childs ! (k - 1), txtLenOf (childs ! (k - 1)))"
      by simp
  qed
  from span inside last first prev show ?thesis by blast
qed

theorem resolve_within_span_witness:
  "distinct (map nodeId ex_childs) \<and> (1::nat) < length ex_childs \<and>
   selectTextNode_span ex_childs (ex_childs ! 1) = Some (12, 19) \<and>
   getTextContainer_at ex_childs 18 = Some (ex_childs ! 1, 6) \<and>
   getTextContainer_at ex_childs 12 = Some (ex_childs ! 0, 12)"
proof -
  have d: "distinct (map nodeId ex_childs)" by (simp add: ex_childs_def ex_ids)
  have k: "(1::nat) < length ex_childs" by (simp add: ex_childs_def)
  have l1: "txtLenOf (ex_childs ! 1) = 7" and l0: "txtLenOf (ex_childs ! 0) = 12"
    by (simp_all add: ex_childs_def ex_lens)
  have s: "sum_list (map txtLenOf (take 1 ex_childs)) = 12"
    by (simp add: ex_childs_def ex_lens)
  from resolve_within_span [OF d k] l1 l0 s d k show ?thesis
    by auto
qed

subsection \<open>C5: the fields of a Range that has been reset\<close>

lemma reset_fields:
  "commonAncestorContainer (reset r) = Null \<and> startContainer (reset r) = Null \<and>
   endContainer (reset r) = Null \<and> endOffset (reset r) = Num 0 \<and>
   startOffset (reset r) = startOffset r \<and> r_range (reset r) = r_range r \<and>
   r_bounder (reset r) = r_bounder r"
  by (simp add: reset_def)

text \<open>
  C5: in the Empty state the three containers are \<^verbatim>\<open>null\<close> and both offsets are 0,
  whatever the fields held before.  \<^verbatim>\<open>_reset\<close> assigns \<^verbatim>\<open>endOffset\<close> twice and
  \<^verbatim>\<open>startOffset\<close> never (lemma \<open>reset_fields\<close>): a Range positioned at offset 6 still
  has \<^verbatim>\<open>startOffset\<close> 6 after \<^verbatim>\<open>_reset\<close>, \<^verbatim>\<open>detach\<close> or \<^verbatim>\<open>deleteContents\<close>, and a
  Range that has just been constructed has no \<^verbatim>\<open>startOffset\<close> at all.
\<close>

theorem reset_keeps_startOffset:
  "startOffset (reset ex_range) = Num 6 \<and>
   startOffset (fst (snd (detach ex_range toy_start))) = Num 6 \<and>
   startOffset (fst (snd (deleteContents toy_host ex_range toy_start))) = Num 6 \<and>
   startOffset (new_Range toy_host toy_start) = Undefined"
  by (simp add: reset_def detach_def deleteContents_def new_Range_def ex_range_def)

subsection \<open>C2: the fields of a Range after a refresh\<close>

lemma refresh_with_fields:
  "refresh_with (Some (node, offset)) r =
     r\<lparr>commonAncestorContainer := node, startContainer := node, endContainer := node,
       startOffset := Num offset, endOffset := Num offset\<rparr> \<and>
   refresh_with None r = reset r"
  by (simp add: refresh_with_def)

lemma refresh_b_fields:
  assumes "refresh_b H h c r = Some r'"
  shows "(\<exists>node offset. getContainer_b H h (r_bounder r) c = Some (Some (node, offset)) \<and>
           commonAncestorContainer r' = node \<and> startContainer r' = node \<and>
           endContainer r' = node \<and> startOffset r' = Num offset \<and> endOffset r' = Num offset) \<or>
         (getContainer_b H h (r_bounder r) c = Some None \<and> r' = reset r)"
  using assms by (auto simp: refresh_b_def refresh_with_def split: option.splits)

lemma refresh_a_fields:
  "getContainer_a H h (r_bounder r) c = Some (node, offset) \<Longrightarrow>
   refresh_a H h c r =
     r\<lparr>commonAncestorContainer := NodeV node, startContainer := NodeV node,
       startOffset := Num offset, endContainer := Num offset\<rparr>"
  by (simp add: refresh_a_def)

lemma refresh_a_miss:
  "getContainer_a H h (r_bounder r) c = None \<Longrightarrow> refresh_a H h c r = reset r"
  by (simp add: refresh_a_def)

text \<open>
  C2: after a refresh that found a node, the three containers are that node and the two
  offsets are its offset.  \<^verbatim>\<open>_refresh\<close> of \<^verbatim>\<open>src/rangeie.js\<close> assigns the offset to
  \<^verbatim>\<open>endContainer\<close> and nothing to \<^verbatim>\<open>endOffset\<close> (lemma \<open>refresh_a_fields\<close>): on the
  example document with the caret at flat offset 6, a new Range is refreshed to the first
  child at offset 6 with \<^verbatim>\<open>endContainer\<close> 6 and \<^verbatim>\<open>endOffset\<close> 0.  The \<^verbatim>\<open>_refresh\<close> of
  \<^verbatim>\<open>part_001\<close> assigns the five fields as stated (lemma \<open>refresh_b_fields\<close>).
\<close>

theorem refresh_a_endContainer:
  "refresh_a toy_host toy_start (6, 6) (new_Range toy_host toy_start) =
     \<lparr>commonAncestorContainer = NodeV ex_text0, startContainer = NodeV ex_text0,
      startOffset = Num 6, endContainer = Num 6, endOffset = Num 0,
      r_range = Some (6, 6), r_bounder = ex_div\<rparr>"
  by (simp add: refresh_a_def getContainer_a_def getTextContainer_a_def
      getTextAbsOffset_a_def new_Range_def reset_def getTextContainer_at_def toy_eval)

subsection \<open>C4: an offset beyond the content\<close>

lemma getTextContainer_scan_beyond:
  "totLen + sum_list (map txtLenOf childs) < off \<Longrightarrow>
   fst (getTextContainer_scan childs off txtLen totLen) = None"
proof (induction childs arbitrary: txtLen totLen)
  case Nil
  then show ?case by simp
next
  case (Cons c cs)
  have "0 \<le> sum_list (map txtLenOf cs)" by (rule sum_txtLenOf_nonneg)
  with Cons.prems have "\<not> off \<le> totLen + txtLenOf c" by simp
  moreover from Cons.prems
  have "fst (getTextContainer_scan cs off (txtLenOf c) (totLen + txtLenOf c)) = None"
    by (intro Cons.IH) (simp add: add.assoc)
  ultimately show ?case by (simp add: Let_def)
qed

lemma getTextContainer_at_beyond:
  "sum_list (map txtLenOf childs) < off \<Longrightarrow> getTextContainer_at childs off = None"
  using getTextContainer_scan_beyond [of 0 childs off 0]
  by (auto simp: getTextContainer_at_def split: prod.splits option.splits)

text \<open>
  C4: an offset beyond the total length of the children resolves to no child (lemma
  \<open>getTextContainer_at_beyond\<close>), nothing is raised, and the refresh leaves the Range
  Empty, with \<^verbatim>\<open>null\<close> and zero in its public fields.  The refresh calls \<^verbatim>\<open>_reset\<close>,
  which never assigns \<^verbatim>\<open>startOffset\<close>: on the example document, with the active
  selection at flat offset 30 (beyond the 27 characters of the \<^verbatim>\<open>div\<close>), a Range
  positioned at offset 6 is refreshed to \<^verbatim>\<open>null\<close> containers and keeps
  \<^verbatim>\<open>startOffset\<close> 6.
\<close>

theorem refresh_a_beyond_keeps_startOffset:
  "getTextAbsOffset_a toy_host (toy_start\<lparr>t_sel := (30, 30)\<rparr>) ex_div = 30 \<and>
   getTextContainer_at ex_childs 30 = None \<and>
   refresh_a toy_host (toy_start\<lparr>t_sel := (30, 30)\<rparr>) (6, 6) ex_range = reset ex_range \<and>
   commonAncestorContainer (refresh_a toy_host (toy_start\<lparr>t_sel := (30, 30)\<rparr>) (6, 6) ex_range)
     = Null \<and>
   startOffset (refresh_a toy_host (toy_start\<lparr>t_sel := (30, 30)\<rparr>) (6, 6) ex_range) = Num 6"
  by (simp add: refresh_a_def getContainer_a_def getTextContainer_a_def
      getTextAbsOffset_a_def reset_def getTextContainer_at_def ex_range_def toy_eval)

subsection \<open>C10: what \<^verbatim>\<open>selectNode\<close> returns\<close>

lemma selectTextNode_scan_absent:
  "\<forall>n \<in> set childs. \<not> same_node n referenceNode \<Longrightarrow>
   fst (selectTextNode_scan childs referenceNode t) = None"
  by (induction childs arbitrary: t) simp_all

lemma r_range_refresh_a: "r_range (refresh_a H h c r) = r_range r"
  by (simp add: refresh_a_def reset_def split: option.splits prod.splits)

text \<open>
  C10: \<^verbatim>\<open>selectNode\<close> of \<^verbatim>\<open>src/rangeie.js\<close> returns \<^verbatim>\<open>true\<close> on every Range that has
  its cursor, for every node; also for a text node that is not among the children of the
  container, where \<^verbatim>\<open>_selectTextNode\<close> fails, nothing is committed to the host and the
  Range is the result of \<^verbatim>\<open>_reset\<close> (containers \<^verbatim>\<open>null\<close>, \<^verbatim>\<open>endOffset\<close> 0).
\<close>

theorem selectNode_a_true:
  assumes c: "r_range r = Some c"
  shows "fst (selectNode_a H referenceNode r h) = Inr True \<and>
    (isTextNode referenceNode \<and>
     (\<forall>n \<in> set (h_childNodes H h (r_bounder r)). \<not> same_node n referenceNode) \<longrightarrow>
       (\<exists>r'. fst (snd (selectNode_a H referenceNode r h)) = reset r') \<and>
       commonAncestorContainer (fst (snd (selectNode_a H referenceNode r h))) = Null \<and>
       startContainer (fst (snd (selectNode_a H referenceNode r h))) = Null \<and>
       endContainer (fst (snd (selectNode_a H referenceNode r h))) = Null \<and>
       endOffset (fst (snd (selectNode_a H referenceNode r h))) = Num 0 \<and>
       snd (snd (selectNode_a H referenceNode r h)) = h)"
proof -
  have ret: "fst (selectNode_a H referenceNode r h) = Inr True"
    using c by (simp add: selectNode_a_def Let_def split: prod.splits)
  have miss: "(\<exists>r'. fst (snd (selectNode_a H referenceNode r h)) = reset r') \<and>
       commonAncestorContainer (fst (snd (selectNode_a H referenceNode r h))) = Null \<and>
       startContainer (fst (snd (selectNode_a H referenceNode r h))) = Null \<and>
       endContainer (fst (snd (selectNode_a H referenceNode r h))) = Null \<and>
       endOffset (fst (snd (selectNode_a H referenceNode r h))) = Num 0 \<and>
       snd (snd (selectNode_a H referenceNode r h)) = h"
    if t: "isTextNode referenceNode"
      and a: "\<forall>n \<in> set (h_childNodes H h (r_bounder r)). \<not> same_node n referenceNode"
  proof -
    from a have "fst (selectTextNode_scan (h_childNodes H h (r_bounder r)) referenceNode 0) = None"
      by (rule selectTextNode_scan_absent)
    then obtain tl where
      "selectTextNode_scan (h_childNodes H h (r_bounder r)) referenceNode 0 = (None, tl)"
      by (cases "selectTextNode_scan (h_childNodes H h (r_bounder r)) referenceNode 0") auto
    then have "fst (selectNode_priv_a H h (r_bounder r) referenceNode c) = False"
      using t by (simp add: selectNode_priv_a_def selectTextNode_a_def Let_def)
    then obtain c' where "selectNode_priv_a H h (r_bounder r) referenceNode c = (False, c')"
      by (cases "selectNode_priv_a H h (r_bounder r) referenceNode c") auto
    with c have "selectNode_a H referenceNode r h = (Inr True, reset (r\<lparr>r_range := Some c'\<rparr>), h)"
      by (simp add: selectNode_a_def)
    then show ?thesis by (auto simp: reset_fields)
  qed
  from ret miss show ?thesis by blast
qed

theorem selectNode_a_true_witness:
  "r_range ex_range = Some (6, 6) \<and> isTextNode ex_inner \<and>
   list_all (\<lambda>n. \<not> same_node n ex_inner) (h_childNodes toy_host toy_start (r_bounder ex_range)) \<and>
   fst (selectNode_a toy_host ex_inner ex_range toy_start) = Inr True \<and>
   commonAncestorContainer (fst (snd (selectNode_a toy_host ex_inner ex_range toy_start))) = Null"
proof -
  have c: "r_range ex_range = Some (6, 6)" by (simp add: ex_range_def)
  have t: "isTextNode ex_inner" by (simp add: ex_kinds)
  have a: "\<forall>n \<in> set (h_childNodes toy_host toy_start (r_bounder ex_range)). \<not> same_node n ex_inner"
    by (simp add: ex_range_def toy_eval)
  from selectNode_a_true [OF c, of toy_host ex_inner toy_start] c t a show ?thesis
    by (simp add: list_all_iff)
qed

subsection \<open>C8: the move of the end boundary in \<^verbatim>\<open>setEnd\<close>\<close>

lemma r_range_refresh_b: "refresh_b H h c r = Some r' \<Longrightarrow> r_range r' = r_range r"
  by (auto simp: refresh_b_def refresh_with_def reset_def split: option.splits)

text \<open>
  C8: once the anchor step of \<^verbatim>\<open>setEnd\<close> has succeeded with the cursor \<open>c'\<close> (the
  cursor of the Range when it is positioned already, the cursor \<^verbatim>\<open>_selectNode\<close> leaves
  otherwise), the cursor of the Range is \<open>c'\<close> with its end moved by
  \<open>endOffset - totalLength(endNode)\<close>, where \<open>totalLength\<close> is \<open>txtLenOf\<close>; that cursor
  is committed and the Range refreshed.  In \<^verbatim>\<open>src/rangeie.js\<close> and, for a node that
  passes \<^verbatim>\<open>_checkNode\<close>, in the first revision of \<^verbatim>\<open>part_001\<close> (where the refresh may
  not return).
\<close>

theorem setEnd_moves_end_by_delta:
  assumes c: "r_range r = Some c"
    and c2: "c2 = snd (h_moveEnd H h (endOff - txtLenOf endNode) c')"
  shows "((if commonAncestorContainer r = Null
           then selectNode_priv_a H h (r_bounder r) endNode c else (True, c)) = (True, c') \<longrightarrow>
          setEnd_a H endNode endOff r h =
            (Inr True, refresh_a H (h_select H c2 h) c2 (r\<lparr>r_range := Some c2\<rparr>), h_select H c2 h) \<and>
          r_range (fst (snd (setEnd_a H endNode endOff r h))) = Some c2) \<and>
         (checkNode H E h endNode ''setEnd'' = Inr True \<and>
          (if commonAncestorContainer r = Null
           then selectNode_priv_b H h (r_bounder r) endNode c else Some (True, c)) = Some (True, c') \<longrightarrow>
          setEnd_b H E endNode endOff r h =
            map_option (\<lambda>r3. (Inr True, r3, h_select H c2 h))
              (refresh_b H (h_select H c2 h) c2 (r\<lparr>r_range := Some c2\<rparr>)) \<and>
          (\<forall>out. setEnd_b H E endNode endOff r h = Some out \<longrightarrow>
             r_range (fst (snd out)) = Some c2))"
proof -
  have d: "- (txtLenOf endNode - endOff) = endOff - txtLenOf endNode" by simp
  have a: "setEnd_a H endNode endOff r h =
            (Inr True, refresh_a H (h_select H c2 h) c2 (r\<lparr>r_range := Some c2\<rparr>), h_select H c2 h) \<and>
          r_range (fst (snd (setEnd_a H endNode endOff r h))) = Some c2"
    if "(if commonAncestorContainer r = Null
           then selectNode_priv_a H h (r_bounder r) endNode c else (True, c)) = (True, c')"
  proof -
    from that c c2 have "setEnd_a H endNode endOff r h =
        (Inr True, refresh_a H (h_select H c2 h) c2 (r\<lparr>r_range := Some c2\<rparr>), h_select H c2 h)"
      unfolding setEnd_a_def txtLenOf_def [symmetric] d by (simp add: Let_def)
    then show ?thesis by (simp add: r_range_refresh_a)
  qed
  have b: "setEnd_b H E endNode endOff r h =
            map_option (\<lambda>r3. (Inr True, r3, h_select H c2 h))
              (refresh_b H (h_select H c2 h) c2 (r\<lparr>r_range := Some c2\<rparr>)) \<and>
          (\<forall>out. setEnd_b H E endNode endOff r h = Some out \<longrightarrow>
             r_range (fst (snd out)) = Some c2)"
    if "checkNode H E h endNode ''setEnd'' = Inr True \<and>
          (if commonAncestorContainer r = Null
           then selectNode_priv_b H h (r_bounder r) endNode c else Some (True, c)) = Some (True, c')"
  proof -
    from that c c2 have e: "setEnd_b H E endNode endOff r h =
            map_option (\<lambda>r3. (Inr True, r3, h_select H c2 h))
              (refresh_b H (h_select H c2 h) c2 (r\<lparr>r_range := Some c2\<rparr>))"
      unfolding setEnd_b_def txtLenOf_def [symmetric] d
      by (simp add: Let_def split: option.splits)
    then show ?thesis by (auto dest: r_range_refresh_b)
  qed
  from a b show ?thesis by blast
qed


lemma toy_refresh_6_11:
  "refresh_b toy_host (toy_start\<lparr>t_sel := (6, 11), t_log := [''select'']\<rparr>) (6, 11)
     (ex_range\<lparr>r_range := Some (6, 11)\<rparr>) = Some (ex_range\<lparr>r_range := Some (6, 11)\<rparr>)"
  by (simp add: refresh_b_def refresh_with_def getContainer_b_def getTextContainer_b_def
      ex_range_def loop_b_eval toy_eval)

theorem setEnd_moves_end_by_delta_witness:
  "r_range (ex_range\<lparr>r_range := Some (6, 12)\<rparr>) = Some (6, 12) \<and>
   snd (h_moveEnd toy_host toy_start (11 - txtLenOf ex_text0) (6, 12)) = (6, 11) \<and>
   checkNode toy_host ex_env toy_start ex_text0 ''setEnd'' = Inr True \<and>
   r_range (fst (snd (setEnd_a toy_host ex_text0 11 (ex_range\<lparr>r_range := Some (6, 12)\<rparr>)
     toy_start))) = Some (6, 11) \<and>
   setEnd_b toy_host ex_env ex_text0 11 (ex_range\<lparr>r_range := Some (6, 12)\<rparr>) toy_start =
     Some (Inr True, ex_range\<lparr>r_range := Some (6, 11)\<rparr>,
           toy_start\<lparr>t_sel := (6, 11), t_log := [''select'']\<rparr>)"
proof -
  have c: "r_range (ex_range\<lparr>r_range := Some (6, 12)\<rparr>) = Some (6, 12)" by simp
  have c2: "(6, 11) = snd (h_moveEnd toy_host toy_start (11 - txtLenOf ex_text0) (6, 12))"
    by (simp add: toy_eval)
  have n: "commonAncestorContainer (ex_range\<lparr>r_range := Some (6, 12)\<rparr>) \<noteq> Null"
    by (simp add: ex_range_def)
  have k: "checkNode toy_host ex_env toy_start ex_text0 ''setEnd'' = Inr True"
    by (simp add: checkNode_def toy_document ex_attached)
  have s: "h_select toy_host (6, 11) toy_start = toy_start\<lparr>t_sel := (6, 11), t_log := [''select'']\<rparr>"
    by (simp add: toy_host_def toy_start_def)
  note t = setEnd_moves_end_by_delta [OF c c2, where E = ex_env]
  from t n have a: "r_range (fst (snd (setEnd_a toy_host ex_text0 11
      (ex_range\<lparr>r_range := Some (6, 12)\<rparr>) toy_start))) = Some (6, 11)"
    by (simp add: r_range_refresh_a)
  from t n k have b: "setEnd_b toy_host ex_env ex_text0 11 (ex_range\<lparr>r_range := Some (6, 12)\<rparr>)
      toy_start =
     map_option (\<lambda>r3. (Inr True, r3, h_select toy_host (6, 11) toy_start))
       (refresh_b toy_host (h_select toy_host (6, 11) toy_start) (6, 11)
          (ex_range\<lparr>r_range := Some (6, 11)\<rparr>))"
    by simp
  have b': "setEnd_b toy_host ex_env ex_text0 11 (ex_range\<lparr>r_range := Some (6, 12)\<rparr>)
      toy_start =
     Some (Inr True, ex_range\<lparr>r_range := Some (6, 11)\<rparr>,
           toy_start\<lparr>t_sel := (6, 11), t_log := [''select'']\<rparr>)"
    unfolding b s toy_refresh_6_11 by simp
  from c c2 [symmetric] k a b' show ?thesis by blast
qed

subsection \<open>C6: \<^verbatim>\<open>removeRange\<close>\<close>

lemma removeRange_loop_absent:
  "n \<le> length (s_ranges S) \<Longrightarrow> Some rng \<notin> set (take n (s_ranges S)) \<Longrightarrow>
   removeRange_loop rm n rng S = (Inr False, S)"
proof (induction n)
  case 0
  then show ?case by simp
next
  case (Suc n)
  then have "take (Suc n) (s_ranges S) = take n (s_ranges S) @ [s_ranges S ! n]"
    by (simp add: take_Suc_conv_app_nth)
  with Suc show ?case by auto
qed

lemma removeRange_absent:
  "Some rng \<notin> set (s_ranges S) \<Longrightarrow>
   removeRange_a rng S = (Inr False, S) \<and> removeRange_b rng S = (Inr False, S)"
  by (simp add: removeRange_a_def removeRange_b_def removeRange_loop_absent)

lemma removeRange_loop_found:
  "n \<le> length (s_ranges S) \<Longrightarrow> Some rng \<in> set (take n (s_ranges S)) \<Longrightarrow>
   \<exists>i<n. s_ranges S ! i = Some rng \<and>
     removeRange_loop rm n rng S =
       (case rm i S of (Inl e, S') \<Rightarrow> (Inl e, S') | (Inr ok, S') \<Rightarrow> (Inr True, S'))"
proof (induction n)
  case 0
  then show ?case by simp
next
  case (Suc n)
  show ?case
  proof (cases "s_ranges S ! n = Some rng")
    case True
    then show ?thesis by auto
  next
    case False
    from Suc.prems have "take (Suc n) (s_ranges S) = take n (s_ranges S) @ [s_ranges S ! n]"
      by (simp add: take_Suc_conv_app_nth)
    with Suc.prems False have "Some rng \<in> set (take n (s_ranges S))" by auto
    with Suc.IH Suc.prems obtain i where "i < n" "s_ranges S ! i = Some rng"
      "removeRange_loop rm n rng S =
       (case rm i S of (Inl e, S') \<Rightarrow> (Inl e, S') | (Inr ok, S') \<Rightarrow> (Inr True, S'))"
      by auto
    with False show ?thesis by (auto intro!: exI [of _ i])
  qed
qed

lemma detachAt_present:
  "i < length (s_ranges S) \<Longrightarrow> s_ranges S ! i = Some rng \<Longrightarrow> s_heap S rng = Some r \<Longrightarrow>
   detachAt i S = (Inr True, S\<lparr>s_heap := (s_heap S)(rng \<mapsto> reset (r\<lparr>r_range := None\<rparr>))\<rparr>)"
  by (simp add: detachAt_def detach_def)

lemma removeRange_b_present:
  assumes m: "Some rng \<in> set (s_ranges S)" and hp: "s_heap S rng = Some r"
  shows "\<exists>S'. removeRange_b rng S = (Inr True, S') \<and>
     length (s_ranges S') + 1 = length (s_ranges S) \<and>
     s_heap S' rng = Some (reset (r\<lparr>r_range := None\<rparr>)) \<and> s_host S' = s_host S"
proof -
  from m obtain i where i: "i < length (s_ranges S)" "s_ranges S ! i = Some rng"
    and l: "removeRange_loop removeRange_priv_b (length (s_ranges S)) rng S =
       (case removeRange_priv_b i S of (Inl e, S') \<Rightarrow> (Inl e, S')
        | (Inr ok, S') \<Rightarrow> (Inr True, S'))"
    using removeRange_loop_found [of "length (s_ranges S)" S rng removeRange_priv_b] by auto
  from i hp show ?thesis
    unfolding removeRange_b_def l
    by (simp add: removeRange_priv_b_def detachAt_present Let_def)
qed

lemma removeRange_a_present:
  assumes m: "Some rng \<in> set (s_ranges S)" and hp: "s_heap S rng = Some r"
  shows "\<exists>S'. removeRange_a rng S = (Inr True, S') \<and>
     length (s_ranges S') = length (s_ranges S) \<and>
     s_heap S' rng = Some (reset (r\<lparr>r_range := None\<rparr>)) \<and> s_host S' = s_host S"
proof -
  from m obtain i where i: "i < length (s_ranges S)" "s_ranges S ! i = Some rng"
    and l: "removeRange_loop removeRange_priv_a (length (s_ranges S)) rng S =
       (case removeRange_priv_a i S of (Inl e, S') \<Rightarrow> (Inl e, S')
        | (Inr ok, S') \<Rightarrow> (Inr True, S'))"
    using removeRange_loop_found [of "length (s_ranges S)" S rng removeRange_priv_a] by auto
  from i hp show ?thesis
    unfolding removeRange_a_def l
    by (simp add: removeRange_priv_a_def detachAt_present Let_def)
qed

text \<open>
  C6: \<^verbatim>\<open>removeRange\<close> on a Range that the set does not hold returns \<^verbatim>\<open>false\<close> and
  changes nothing (lemma \<open>removeRange_absent\<close>, both revisions); on a Range it holds
  it returns \<^verbatim>\<open>true\<close>, detaches the Range and makes the set one shorter.  The last part
  holds in \<^verbatim>\<open>part_001\<close> (lemma \<open>removeRange_b_present\<close>).  \<^verbatim>\<open>_removeRange\<close> of
  \<^verbatim>\<open>src/rangeie.js\<close> only deletes the array element (lemma \<open>removeRange_a_present\<close>):
  on a Selection of two Ranges, removing the second one leaves \<^verbatim>\<open>_ranges\<close> with
  length 2 and a hole, on which \<^verbatim>\<open>collapseToEnd\<close> then raises a TypeError.
\<close>

theorem removeRange_a_leaves_hole:
  "removeRange_a 1 ex_selection =
     (Inr True,
      ex_selection\<lparr>s_ranges := [Some 0, None],
        s_heap := (s_heap ex_selection)(1 \<mapsto> reset (ex_range\<lparr>r_range := None\<rparr>))\<rparr>) \<and>
   length (s_ranges (snd (removeRange_a 1 ex_selection))) = length (s_ranges ex_selection) \<and>
   fst (collapseToEnd_a toy_host (snd (removeRange_a 1 ex_selection))) = Inl TypeError \<and>
   s_ranges (snd (removeRange_b 1 ex_selection)) = [Some 0]"
  by (simp add: removeRange_a_def removeRange_b_def removeRange_priv_a_def removeRange_priv_b_def
      detachAt_def detach_def ex_selection_def collapseToEnd_a_def collapseAt_a_def
      numeral_2_eq_2)


subsection \<open>C7: \<^verbatim>\<open>collapseToStart\<close> and \<^verbatim>\<open>collapseToEnd\<close>\<close>

lemma collapse_empty:
  "s_ranges S = [] \<Longrightarrow>
   collapseToStart_a H S = (Inr False, S) \<and> collapseToEnd_a H S = (Inr False, S) \<and>
   collapseToStart_b H S = Some (Inr False, S) \<and> collapseToEnd_b H S = Some (Inr False, S)"
  by (simp add: collapseToStart_a_def collapseToEnd_a_def collapseToStart_b_def
      collapseToEnd_b_def)

lemma collapse_b_host: "collapse_b H toStart r h = Some (res, r', h') \<Longrightarrow> h' = h"
  by (auto simp: collapse_b_def Let_def split: option.splits)

lemma collapseToEnd_b_host:
  "collapseToEnd_b H S = Some (res, S') \<Longrightarrow> s_host S' = s_host S"
  by (auto simp: collapseToEnd_b_def collapseAt_b_def split: if_splits option.splits
      sum.splits prod.splits dest: collapse_b_host)

lemma collapse_a_result:
  "r_range r = Some c \<Longrightarrow>
   collapse_a H toStart r h =
     (Inr True, refresh_a H h (h_collapse H h toStart c) (r\<lparr>r_range := Some (h_collapse H h toStart c)\<rparr>), h)"
  by (simp add: collapse_a_def Let_def)

lemma collapseToEnd_a_commits:
  assumes "s_ranges S \<noteq> []" and "last (s_ranges S) = Some ref" and "s_heap S ref = Some r"
    and "r_range r = Some c"
  shows "\<exists>S'. collapseToEnd_a H S = (Inr True, S') \<and>
     s_host S' = h_select H (h_collapse H (s_host S) False c) (s_host S) \<and>
     map_option r_range (s_heap S' ref) = Some (Some (h_collapse H (s_host S) False c))"
  using assms
  by (simp add: collapseToEnd_a_def collapseAt_a_def collapse_a_result selectOf_def
      last_conv_nth r_range_refresh_a)

lemma toy_3_6_log: "t_log toy_3_6 = []"
  by (simp add: toy_3_6_def)

lemma toy_refresh_3_6:
  "refresh_b toy_host toy_3_6 (6, 6) (ex_range\<lparr>r_range := Some (6, 6)\<rparr>) =
     Some (ex_range\<lparr>r_range := Some (6, 6), startOffset := Num 3, endOffset := Num 3\<rparr>)"
  "refresh_b toy_host toy_3_6 (3, 3) (ex_range\<lparr>r_range := Some (3, 3)\<rparr>) =
     Some (ex_range\<lparr>r_range := Some (3, 3), startOffset := Num 3, endOffset := Num 3\<rparr>)"
  by (simp_all add: refresh_b_def refresh_with_def getContainer_b_def getTextContainer_b_def
      ex_range_def toy_3_6_def loop_b_eval toy_eval)

text \<open>
  C7: on a Selection without Ranges both methods return \<^verbatim>\<open>false\<close> and change nothing
  (lemma \<open>collapse_empty\<close>); otherwise each collapses its Range, commits it as the
  active selection and returns \<^verbatim>\<open>true\<close>.  \<^verbatim>\<open>collapseToEnd\<close> of \<^verbatim>\<open>part_001\<close> has no
  \<^verbatim>\<open>range._range.select()\<close> and never changes the host (lemma
  \<open>collapseToEnd_b_host\<close>): on a Selection whose Range spans the flat offsets 3 to 6
  it collapses the cursor to 6 and leaves the active selection at 3 to 6, where
  \<^verbatim>\<open>collapseToStart\<close> of the same revision and \<^verbatim>\<open>collapseToEnd\<close> of
  \<^verbatim>\<open>src/rangeie.js\<close> (lemma \<open>collapseToEnd_a_commits\<close>) commit the collapsed cursor.
\<close>

theorem collapseToEnd_b_does_not_commit:
  "collapseToEnd_b toy_host ex_selection_3_6 =
     Some (Inr True,
       ex_selection_3_6\<lparr>s_heap := [0 \<mapsto> ex_range\<lparr>r_range := Some (6, 6), startOffset := Num 3,
         endOffset := Num 3\<rparr>]\<rparr>) \<and>
   s_host (snd (the (collapseToEnd_b toy_host ex_selection_3_6))) = toy_3_6 \<and>
   s_host (snd (the (collapseToStart_b toy_host ex_selection_3_6))) =
     toy_3_6\<lparr>t_sel := (3, 3), t_log := [''select'']\<rparr> \<and>
   s_host (snd (collapseToEnd_a toy_host ex_selection_3_6)) =
     toy_3_6\<lparr>t_sel := (6, 6), t_log := [''select'']\<rparr>"
  by (simp add: collapseToEnd_b_def collapseToStart_b_def collapseAt_b_def collapse_b_def
      collapseToEnd_a_def collapseAt_a_def collapse_a_def selectOf_def
      ex_selection_3_6_def toy_refresh_3_6 r_range_refresh_a toy_collapse toy_select
      toy_3_6_log Let_def)

subsection \<open>C9: nodes that are not in the document\<close>









subsection \<open>C3: the end of the backward probing loop\<close>









text \<open>
  The loop of the earlier revision (lines 1513 to 1530 of \<^verbatim>\<open>part_001\<close>) does not read
  what \<^verbatim>\<open>moveStart\<close> returns: from a cursor that cannot move and lies inside the bounder
  it never returns.
\<close>

lemma getTextAbsOffset_c_runs_forever:
  assumes still: "snd (h_moveStart H h (- 1) c) = c"
    and inside: "isBreakout H h (Some b) (Some (h_parentElement H h c))"
  shows "getTextAbsOffset_loop_c H h b (c, i, rt) = None"
proof -
  have never: "\<not> (H' = H \<and> h' = h \<and> b' = b \<and> fst s = c)"
    if run: "getTextAbsOffset_loop_c H' h' b' s = Some y" for H' h' b' s y
  proof (rule getTextAbsOffset_loop_c.raw_induct
      [where P = "\<lambda>H' h' b' s y. \<not> (H' = H \<and> h' = h \<and> b' = b \<and> fst s = c)", OF _ run])
    fix loop :: "('a, 'b) host \<Rightarrow> 'b \<Rightarrow> dom_node \<Rightarrow> 'a \<times> int \<times> string \<Rightarrow> int option"
    fix H' h' b' s y
    assume IH: "\<And>H' h' b' s y. loop H' h' b' s = Some y \<Longrightarrow>
        \<not> (H' = H \<and> h' = h \<and> b' = b \<and> fst s = c)"
      and st: "(case getTextAbsOffset_step_c H' h' b' s of Inl i \<Rightarrow> Some i
        | Inr s' \<Rightarrow> loop H' h' b' s') = Some y"
    show "\<not> (H' = H \<and> h' = h \<and> b' = b \<and> fst s = c)"
    proof
      assume eq: "H' = H \<and> h' = h \<and> b' = b \<and> fst s = c"
      then obtain i' rt' where s: "s = (c, i', rt')" by (cases s) auto
      from eq s still inside obtain i'' rt'' where
        "getTextAbsOffset_step_c H' h' b' s = Inr (c, i'', rt'')"
        by (simp add: getTextAbsOffset_step_c_def Let_def)
      with st have "loop H' h' b' (c, i'', rt'') = Some y" by simp
      then have "\<not> (H' = H \<and> h' = h \<and> b' = b \<and> fst (c, i'', rt'') = c)" by (rule IH)
      with eq show False by simp
    qed
  qed
  show ?thesis
  proof (cases "getTextAbsOffset_loop_c H h b (c, i, rt)")
    case None
    then show ?thesis .
  next
    case (Some y)
    from never [OF this] show ?thesis by simp
  qed
qed

lemma getTextAbsOffset_c_toy:
  "getTextAbsOffset_c toy_host (toy_start\<lparr>t_sel := (0, 0)\<rparr>) ex_div = None"
  unfolding getTextAbsOffset_c_def
  by (rule getTextAbsOffset_c_runs_forever) (simp_all add: isBreakout_def toy_eval)

end
